theory Spec2Isabelle
  imports Complex_Main
begin

section \<open>Numbers, errors and arrays\<close>

text \<open>
  The module \<^verbatim>\<open>elektronn3/data/transformations.py\<close> computes with numpy arrays of
  the working float type \<^verbatim>\<open>floatX\<close>. Here a float is a real number and every
  arithmetic operation is exact: rounding error, infinities and NaN are outside the
  development. The places where the program would leave the reals (a division by
  zero in the homogeneous divide) are explicit outcomes of the embedding, so that no
  theorem speaks about them by accident.

  Every \<^verbatim>\<open>raise\<close> and failing \<^verbatim>\<open>assert\<close> of the source is a value
  \<open>Inl e\<close> of a result type. \<^verbatim>\<open>WarpingOOBError\<close> is declared in the
  source as a subclass of \<^verbatim>\<open>ValueError\<close>; both carry their message.
  Three further outcomes name behaviour that is not an exception of the source:
  \<^item> \<open>UncheckedRead\<close>: a numba kernel indexes its source array out of range
    (numba compiles \<^verbatim>\<open>nopython\<close> kernels without bounds checks, so the
    program reads arbitrary memory there);
  \<^item> \<open>NonFinite\<close>: a float division by zero (numpy yields an infinity or NaN
    and goes on);
  \<^item> \<open>Unsupported\<close>: an input shape whose treatment by numpy broadcasting and
    negative slicing is not part of this embedding.
\<close>

datatype error =
    NotImplementedError
  | ValueError string
  | WarpingOOBError string
  | LinAlgError
  | AssertionError
  | TypeError
  | IndexError
  | ZeroDivisionError
  | AttributeError
  | UncheckedRead
  | NonFinite
  | Unsupported

type_synonym 'a result = "error + 'a"

definition and_then :: "'a result \<Rightarrow> ('a \<Rightarrow> 'b result) \<Rightarrow> 'b result" where
  "and_then r f = (case r of Inl e \<Rightarrow> Inl e | Inr x \<Rightarrow> f x)"

text \<open>\<^verbatim>\<open>except ValueError\<close> also catches the subclass.\<close>

fun is_ValueError :: "error \<Rightarrow> bool" where
  "is_ValueError (ValueError m) = True"
| "is_ValueError (WarpingOOBError m) = True"
| "is_ValueError e = False"


text \<open>
  An array is its shape and its items, addressed by a list of indices, as for a numpy
  array or an h5py dataset. Items at indices outside the shape do not exist in the
  program; nothing below reads them without a range check.
\<close>

record 'a ndarray =
  shape :: "nat list"
  item :: "nat list \<Rightarrow> 'a"

text \<open>Float to integer conversions: \<^verbatim>\<open>np.int32(x)\<close> truncates towards zero,
  \<^verbatim>\<open>np.round\<close> rounds to the nearest integer and halves to the even one.\<close>

definition np_int32 :: "real \<Rightarrow> int" where
  "np_int32 x = (if 0 \<le> x then \<lfloor>x\<rfloor> else \<lceil>x\<rceil>)"

definition np_round :: "real \<Rightarrow> int" where
  "np_round x =
     (let f = \<lfloor>x\<rfloor>; d = x - of_int f
      in if d < 1/2 then f else if 1/2 < d then f + 1 else if even f then f else f + 1)"

section \<open>Matrix builders\<close>

text \<open>A homogeneous transform is a 4x4 matrix, a list of four rows of four entries,
  as the array literals of the source write it.\<close>

type_synonym mat = "real list list"

definition eye4 :: mat where
  "eye4 = [[1, 0, 0, 0], [0, 1, 0, 0], [0, 0, 1, 0], [0, 0, 0, 1]]"

definition identity :: mat where
  "identity = eye4"

definition translate :: "real \<Rightarrow> real \<Rightarrow> real \<Rightarrow> mat" where
  "translate dz dy dx =
     [[1, 0, 0, dz],
      [0, 1, 0, dy],
      [0, 0, 1, dx],
      [0, 0, 0, 1]]"

definition rotate_z :: "real \<Rightarrow> mat" where
  "rotate_z a =
     [[1, 0, 0, 0],
      [0, cos a, - sin a, 0],
      [0, sin a, cos a, 0],
      [0, 0, 0, 1]]"

definition rotate_y :: "real \<Rightarrow> mat" where
  "rotate_y a =
     [[cos a, - sin a, 0, 0],
      [sin a, cos a, 0, 0],
      [0, 0, 1, 0],
      [0, 0, 0, 1]]"

definition rotate_x :: "real \<Rightarrow> mat" where
  "rotate_x a =
     [[cos a, 0, sin a, 0],
      [0, 1, 0, 0],
      [- sin a, 0, cos a, 0],
      [0, 0, 0, 1]]"

text \<open>\<^verbatim>\<open>scale_inv\<close> divides Python numbers: a zero factor raises
  \<^verbatim>\<open>ZeroDivisionError\<close>.\<close>

definition scale_inv :: "real \<Rightarrow> real \<Rightarrow> real \<Rightarrow> mat result" where
  "scale_inv mz my mx =
     (if mz = 0 \<or> my = 0 \<or> mx = 0 then Inl ZeroDivisionError
      else Inr
        [[1 / mz, 0, 0, 0],
         [0, 1 / my, 0, 0],
         [0, 0, 1 / mx, 0],
         [0, 0, 0, 1]])"

definition scale :: "real \<Rightarrow> real \<Rightarrow> real \<Rightarrow> mat" where
  "scale mz my mx =
     [[mz, 0, 0, 0],
      [0, my, 0, 0],
      [0, 0, mx, 0],
      [0, 0, 0, 1]]"

text \<open>\<^verbatim>\<open>np.dot\<close> of two 4x4 matrices, and of a 4x4 matrix with a 4-vector.\<close>

definition dot :: "mat \<Rightarrow> mat \<Rightarrow> mat" where
  "dot A B =
     map (\<lambda>i. map (\<lambda>j. A ! i ! 0 * B ! 0 ! j + A ! i ! 1 * B ! 1 ! j
                        + A ! i ! 2 * B ! 2 ! j + A ! i ! 3 * B ! 3 ! j)
                 [0, 1, 2, 3])
         [0, 1, 2, 3]"

definition matvec :: "mat \<Rightarrow> real list \<Rightarrow> real list" where
  "matvec A v =
     map (\<lambda>i. A ! i ! 0 * v ! 0 + A ! i ! 1 * v ! 1 + A ! i ! 2 * v ! 2 + A ! i ! 3 * v ! 3)
         [0, 1, 2, 3]"

text \<open>\<^verbatim>\<open>reduce(np.dot, mat_list, identity())\<close>: a left fold starting at the
  identity.\<close>

definition chain_matrices :: "mat list \<Rightarrow> mat" where
  "chain_matrices mat_list = foldl dot identity mat_list"

definition is_mat4 :: "mat \<Rightarrow> bool" where
  "is_mat4 M = (length M = 4 \<and> list_all (\<lambda>r. length r = 4) M)"

text \<open>
  \<^verbatim>\<open>np.linalg.inv\<close> in exact arithmetic: the adjugate over the determinant, by
  cofactor expansion along the first row; a singular matrix raises
  \<^verbatim>\<open>LinAlgError\<close>. The code inverts in double precision and casts the inverse
  to \<^verbatim>\<open>floatX\<close>
  (\<^verbatim>\<open>np.linalg.inv(M.astype(np.float64)).astype(floatX)\<close>), so its inverse is
  this one only where single precision holds the entries exactly, as for the identity
  and for translations by whole voxels. For another matrix (a scaling by 3, whose
  inverse entry 1/3 is rounded up) a coordinate that lies on a whole voxel here lies
  just beside it in the code, and a comparison of the bounding box with the shape can
  come out differently: what is proved below on the out-of-bounds test is therefore
  stated for translations by whole voxels.
\<close>

definition del_nth :: "nat \<Rightarrow> 'a list \<Rightarrow> 'a list" where
  "del_nth j xs = take j xs @ drop (Suc j) xs"

fun det :: "real list list \<Rightarrow> real" where
  "det [] = 1"
| "det (r # rs) =
     (\<Sum>j\<leftarrow>[0..<length r]. (- 1) ^ j * r ! j * det (map (del_nth j) rs))"

definition minor :: "mat \<Rightarrow> nat \<Rightarrow> nat \<Rightarrow> mat" where
  "minor M i j = map (del_nth j) (del_nth i M)"

definition adjugate :: "mat \<Rightarrow> mat" where
  "adjugate M =
     map (\<lambda>i. map (\<lambda>j. (- 1) ^ (i + j) * det (minor M j i)) [0..<length M]) [0..<length M]"

definition linalg_inv :: "mat \<Rightarrow> mat result" where
  "linalg_inv M =
     (if det M = 0 then Inl LinAlgError
      else Inr (map (map (\<lambda>x. x / det M)) (adjugate M)))"

section \<open>Random sources\<close>

text \<open>
  \<^verbatim>\<open>numpy.random.RandomState\<close> is a library object. Its methods are taken as
  parameters: each maps a generator state to the drawn value and the next state.
  \<open>fresh_state\<close> is the state of a newly made, unseeded \<^verbatim>\<open>RandomState()\<close>.
  The module-level functions \<^verbatim>\<open>np.random.rand\<close> and
  \<^verbatim>\<open>np.random.uniform\<close> draw from numpy's global generator, whose state is
  passed and returned separately from the caller's \<^verbatim>\<open>rng\<close>.
\<close>

record 's random_ops =
  rand :: "'s \<Rightarrow> real \<times> 's"
  binomial :: "nat \<Rightarrow> real \<Rightarrow> nat \<Rightarrow> 's \<Rightarrow> int list \<times> 's"
  randint :: "real \<Rightarrow> real \<Rightarrow> 's \<Rightarrow> int \<times> 's"
  uniform :: "real \<Rightarrow> real \<Rightarrow> nat \<Rightarrow> 's \<Rightarrow> real list \<times> 's"
  fresh_state :: "'s"

text \<open>A concrete generator for evaluation: the state is the tape of the uniform draws
  in \<open>[0, 1)\<close> still to come.\<close>

definition tape_take :: "nat \<Rightarrow> (nat \<Rightarrow> real) \<Rightarrow> real list" where
  "tape_take n t = map t [0..<n]"

definition tape_drop :: "nat \<Rightarrow> (nat \<Rightarrow> real) \<Rightarrow> (nat \<Rightarrow> real)" where
  "tape_drop n t = (\<lambda>i. t (i + n))"

definition tape_ops :: "(nat \<Rightarrow> real) random_ops" where
  "tape_ops =
     \<lparr> rand = (\<lambda>t. (t 0, tape_drop 1 t)),
       binomial = (\<lambda>n p k t. (map (\<lambda>u. if u < p then 1 else 0) (tape_take k t), tape_drop k t)),
       randint = (\<lambda>lo hi t. (\<lfloor>lo\<rfloor> + \<lfloor>t 0 * of_int (\<lfloor>hi\<rfloor> - \<lfloor>lo\<rfloor>)\<rfloor>, tape_drop 1 t)),
       uniform = (\<lambda>lo hi n t. (map (\<lambda>u. lo + (hi - lo) * u) (tape_take n t), tape_drop n t)),
       fresh_state = (\<lambda>i. 0) \<rparr>"

definition const_tape :: "real \<Rightarrow> nat \<Rightarrow> real" where
  "const_tape c i = c"

section \<open>Random transform samplers\<close>

text \<open>\<^verbatim>\<open>np.arctan2(y, x)\<close> on the reals (signed zeros do not exist here).\<close>

definition arctan2 :: "real \<Rightarrow> real \<Rightarrow> real" where
  "arctan2 y x =
     (if 0 < x then arctan (y / x)
      else if x < 0 then (if 0 \<le> y then arctan (y / x) + pi else arctan (y / x) - pi)
      else if 0 < y then pi / 2
      else if y < 0 then - (pi / 2)
      else 0)"

definition linalg_norm :: "real list \<Rightarrow> real" where
  "linalg_norm v = sqrt (\<Sum>x\<leftarrow>v. x * x)"

definition get_euler_angles :: "real list \<Rightarrow> real \<Rightarrow> (real \<times> real \<times> real) result" where
  "get_euler_angles direc gamma =
     (if \<not> \<bar>linalg_norm direc - 1\<bar> < 1 / 1000 then Inl AssertionError
      else if length direc < 3 then Inl IndexError
      else Inr (arctan2 (direc ! 2) (direc ! 1), arccos (direc ! 0), gamma))"

text \<open>The argument \<^verbatim>\<open>gamma\<close>: \<^verbatim>\<open>None\<close>, the string
  \<^verbatim>\<open>'rand'\<close>, or a number.\<close>

datatype gamma_arg = GammaNone | GammaRand | GammaVal real

text \<open>The in-plane angle after the first \<^verbatim>\<open>if\<close> of
  \<^verbatim>\<open>get_rotmat_from_direc\<close>, with the generator states it leaves:
  the caller's \<^verbatim>\<open>rng\<close> and the global one.\<close>

definition resolve_gamma ::
  "'s random_ops \<Rightarrow> gamma_arg \<Rightarrow> 's option \<Rightarrow> 's \<Rightarrow> real \<times> 's option \<times> 's" where
  "resolve_gamma R gamma rng glob =
     (case gamma of
        GammaNone \<Rightarrow> (0, rng, glob)
      | GammaVal g \<Rightarrow> (g, rng, glob)
      | GammaRand \<Rightarrow>
          (case rng of
             None \<Rightarrow> (let (u, glob') = rand R glob in (u * 2 * pi, None, glob'))
           | Some s \<Rightarrow> (let (u, s') = rand R s in (u * 2 * pi, Some s', glob))))"

definition get_rotmat_from_direc ::
  "'s random_ops \<Rightarrow> real list \<Rightarrow> gamma_arg \<Rightarrow> 's option \<Rightarrow> 's \<Rightarrow> (mat \<times> 's option \<times> 's) result" where
  "get_rotmat_from_direc R direc gamma rng glob =
     (let (g, rng', glob') = resolve_gamma R gamma rng glob
      in and_then (get_euler_angles direc g) (\<lambda>(phi, theta, gamma').
           let R1 = rotate_z (- phi);
               R2 = rotate_y (- theta);
               R3 = rotate_z gamma'
           in Inr (chain_matrices [R3, R2, R1], rng', glob')))"

definition get_random_rotmat :: "'s random_ops \<Rightarrow> bool \<Rightarrow> real \<Rightarrow> 's option \<Rightarrow> mat \<times> 's" where
  "get_random_rotmat R lock_z amount rng =
     (let s0 = (case rng of None \<Rightarrow> fresh_state R | Some s \<Rightarrow> s);
          (u1, s1) = rand R s0;
          gamma = u1 * 2 * pi * amount
      in if lock_z then (rotate_z gamma, s1)
         else
           let (u2, s2) = rand R s1;
               phi = u2 * 2 * pi * amount;
               (u3, s3) = rand R s2;
               theta = arcsin u3 * amount;
               R1 = rotate_z (- phi);
               R2 = rotate_y (- theta);
               R3 = rotate_z gamma
           in (chain_matrices [R3, R2, R1], s3))"

text \<open>\<^verbatim>\<open>np.fill_diagonal(F, flips)\<close> on a 4x4 matrix.\<close>

definition fill_diagonal :: "mat \<Rightarrow> real list \<Rightarrow> mat" where
  "fill_diagonal F d = map (\<lambda>i. (F ! i)[i := d ! i]) [0, 1, 2, 3]"

definition get_random_flipmat :: "'s random_ops \<Rightarrow> bool \<Rightarrow> 's option \<Rightarrow> mat \<times> 's" where
  "get_random_flipmat R no_x_flip rng =
     (let s0 = (case rng of None \<Rightarrow> fresh_state R | Some s \<Rightarrow> s);
          (bs, s1) = binomial R 1 (1/2) 4 s0;
          flips = map (\<lambda>b. b * 2 - 1) bs;
          flips = flips[3 := 1];
          flips = (if no_x_flip then flips[2 := 1] else flips)
      in (fill_diagonal eye4 (map of_int flips), s1))"

definition swaps_table :: "bool \<Rightarrow> nat list list" where
  "swaps_table lock_z =
     (if lock_z then
        [[0, 1, 2, 3],
         [0, 2, 1, 3]]
      else
        [[0, 1, 2, 3],
         [0, 2, 1, 3],
         [1, 0, 2, 3],
         [1, 2, 0, 3],
         [2, 0, 1, 3],
         [2, 1, 0, 3]])"

text \<open>A Python list index: a negative index counts from the end.\<close>

definition py_index :: "'a list \<Rightarrow> int \<Rightarrow> 'a result" where
  "py_index xs i =
     (if 0 \<le> i \<and> i < int (length xs) then Inr (xs ! nat i)
      else if i < 0 \<and> - int (length xs) \<le> i then Inr (xs ! nat (i + int (length xs)))
      else Inl IndexError)"

definition get_random_swapmat :: "'s random_ops \<Rightarrow> bool \<Rightarrow> 's option \<Rightarrow> (mat \<times> 's) result" where
  "get_random_swapmat R lock_z rng =
     (let s0 = (case rng of None \<Rightarrow> fresh_state R | Some s \<Rightarrow> s);
          swaps = swaps_table lock_z;
          (i, s1) = randint R 0 (real (length swaps)) s0
      in and_then (py_index swaps i) (\<lambda>perm. Inr (map (\<lambda>r. eye4 ! r) perm, s1)))"

text \<open>
  \<^verbatim>\<open>get_random_warpmat\<close>. The sixteen draws come from
  \<^verbatim>\<open>np.random.uniform\<close>, the global generator; the parameter
  \<^verbatim>\<open>rng\<close> is never read. The steps on \<^verbatim>\<open>perturb\<close> are kept apart so
  that the perturbation can be spoken about.
\<close>

definition reshape44 :: "real list \<Rightarrow> mat" where
  "reshape44 xs = map (\<lambda>i. map (\<lambda>j. xs ! (4 * i + j)) [0, 1, 2, 3]) [0, 1, 2, 3]"

definition set_entry :: "mat \<Rightarrow> nat \<Rightarrow> nat \<Rightarrow> real \<Rightarrow> mat" where
  "set_entry P i j v = P[i := (P ! i)[j := v]]"

definition zero_row :: "mat \<Rightarrow> nat \<Rightarrow> mat" where
  "zero_row P i = P[i := map (\<lambda>x. 0) (P ! i)]"

definition zero_col :: "mat \<Rightarrow> nat \<Rightarrow> mat" where
  "zero_col P j = map (\<lambda>r. r[j := 0]) P"

definition np_clip :: "real \<Rightarrow> real \<Rightarrow> real \<Rightarrow> real" where
  "np_clip x lo hi = min (max x lo) hi"

definition warp_perturb :: "bool \<Rightarrow> bool \<Rightarrow> mat \<Rightarrow> mat" where
  "warp_perturb lock_z perspective raw =
     (let perturb = set_entry raw 3 3 0;
          perturb = (if lock_z then zero_col (zero_row perturb 0) 0 else perturb);
          perturb = (if \<not> perspective then zero_row perturb 3 else perturb);
          perturb = foldl (\<lambda>P j. set_entry P 3 j (P ! 3 ! j * (5 / 100))) perturb [0, 1, 2];
          perturb = foldl (\<lambda>P j. set_entry P 3 j (np_clip (P ! 3 ! j) (- (3 / 1000)) (3 / 1000)))
                          perturb [0, 1, 2]
      in perturb)"

definition mat_add :: "mat \<Rightarrow> mat \<Rightarrow> mat" where
  "mat_add A B = map2 (map2 (+)) A B"

definition get_random_warpmat ::
  "'s random_ops \<Rightarrow> bool \<Rightarrow> bool \<Rightarrow> real \<Rightarrow> 's option \<Rightarrow> 's \<Rightarrow> mat \<times> 's" where
  "get_random_warpmat R lock_z perspective amount rng glob =
     (let W = eye4;
          amount = amount * (1 / 10);
          (draws, glob') = uniform R (- amount) amount 16 glob;
          perturb = warp_perturb lock_z perspective (reshape44 draws)
      in (mat_add W perturb, glob'))"

section \<open>Coordinate grids\<close>

text \<open>
  A patch shape is a triple \<open>(D, H, W)\<close>. \<^verbatim>\<open>make_dest_coords\<close> gives the
  array of shape \<open>(D, H, W, 4)\<close> whose entry at a voxel is its homogeneous coordinate;
  here it is an array of shape \<open>(D, H, W)\<close> whose items are the 4-vectors.
  \<^verbatim>\<open>make_dest_corners\<close> lists the eight corners in the order of
  \<^verbatim>\<open>itertools.product\<close>. The \<^verbatim>\<open>lru_cache\<close> decorators do not
  change what is returned.
\<close>

type_synonym patch_shape = "nat \<times> nat \<times> nat"

definition voxels :: "patch_shape \<Rightarrow> nat list list" where
  "voxels sh = (case sh of (d, h, w) \<Rightarrow> [[z, y, x]. z \<leftarrow> [0..<d], y \<leftarrow> [0..<h], x \<leftarrow> [0..<w]])"

definition make_dest_coords :: "patch_shape \<Rightarrow> (real list) ndarray" where
  "make_dest_coords sh =
     (case sh of (d, h, w) \<Rightarrow>
        \<lparr> shape = [d, h, w],
          item = (\<lambda>idx. [real (idx ! 0), real (idx ! 1), real (idx ! 2), 1]) \<rparr>)"

definition make_dest_corners :: "patch_shape \<Rightarrow> real list list" where
  "make_dest_corners sh =
     (case sh of (d, h, w) \<Rightarrow>
        map (\<lambda>(a, b, c). [of_int ((int d - 1) * a), of_int ((int h - 1) * b),
                           of_int ((int w - 1) * c), 1])
            [(a, b, c). a \<leftarrow> [0, 1], b \<leftarrow> [0, 1], c \<leftarrow> [0, 1]])"

section \<open>Resampling kernels\<close>

text \<open>
  The first error of a list of results, or all their values; and an array filled from
  a function on a list of indices, which fails with the first failing index.
\<close>

fun collect :: "'a result list \<Rightarrow> 'a list result" where
  "collect [] = Inr []"
| "collect (Inl e # rs) = Inl e"
| "collect (Inr x # rs) = (case collect rs of Inl e \<Rightarrow> Inl e | Inr xs \<Rightarrow> Inr (x # xs))"

definition tabulate :: "nat list \<Rightarrow> nat list list \<Rightarrow> (nat list \<Rightarrow> 'a result) \<Rightarrow> 'a ndarray result" where
  "tabulate sh idxs f =
     (case find (\<lambda>i. isl (f i)) idxs of
        Some i \<Rightarrow> Inl (projl (f i))
      | None \<Rightarrow> Inr \<lparr> shape = sh, item = (\<lambda>i. projr (f i)) \<rparr>)"

text \<open>An index into an axis of length \<open>n\<close> inside a numba kernel: a negative index
  wraps around once, and nothing checks the range.\<close>

definition wrap_index :: "nat \<Rightarrow> int \<Rightarrow> nat option" where
  "wrap_index n i =
     (let j = (if i < 0 then i + int n else i)
      in if 0 \<le> j \<and> j < int n then Some (nat j) else None)"

definition read3 :: "real ndarray \<Rightarrow> int \<Rightarrow> int \<Rightarrow> int \<Rightarrow> real result" where
  "read3 src u v w =
     (case (wrap_index (shape src ! 0) u, wrap_index (shape src ! 1) v,
            wrap_index (shape src ! 2) w) of
        (Some a, Some b, Some c) \<Rightarrow> Inr (item src [a, b, c])
      | _ \<Rightarrow> Inl UncheckedRead)"

definition map_coordinates_nearest :: "real ndarray \<Rightarrow> real list \<Rightarrow> real list \<Rightarrow> real result" where
  "map_coordinates_nearest src coords lo =
     (let u = np_round (coords ! 0 - lo ! 0);
          v = np_round (coords ! 1 - lo ! 1);
          w = np_round (coords ! 2 - lo ! 2)
      in read3 src u v w)"

definition map_coordinates_linear :: "real ndarray \<Rightarrow> real list \<Rightarrow> real list \<Rightarrow> real result" where
  "map_coordinates_linear src coords lo =
     (let u = coords ! 0 - lo ! 0;
          v = coords ! 1 - lo ! 1;
          w = coords ! 2 - lo ! 2;
          u0 = np_int32 u;
          u1 = u0 + 1;
          du = u - of_int u0;
          v0 = np_int32 v;
          v1 = v0 + 1;
          dv = v - of_int v0;
          w0 = np_int32 w;
          w1 = w0 + 1;
          dw = w - of_int w0
      in and_then
           (collect [read3 src u0 v0 w0, read3 src u1 v0 w0, read3 src u0 v1 w0,
                     read3 src u0 v0 w1, read3 src u1 v0 w1, read3 src u0 v1 w1,
                     read3 src u1 v1 w0, read3 src u1 v1 w1])
           (\<lambda>s. Inr (s ! 0 * (1 - du) * (1 - dv) * (1 - dw) +
                      s ! 1 * du * (1 - dv) * (1 - dw) +
                      s ! 2 * (1 - du) * dv * (1 - dw) +
                      s ! 3 * (1 - du) * (1 - dv) * dw +
                      s ! 4 * du * (1 - dv) * dw +
                      s ! 5 * (1 - du) * dv * dw +
                      s ! 6 * du * dv * (1 - dw) +
                      s ! 7 * du * dv * dw)))"

text \<open>The maximum over \<^verbatim>\<open>src[u0:u1, v0:v1, w0:w1]\<close>; the bounds are clamped to
  the array, and an empty slice has no maximum.\<close>

definition map_coordinates_max_kernel ::
  "real ndarray \<Rightarrow> real list \<Rightarrow> real list \<Rightarrow> real \<Rightarrow> real result" where
  "map_coordinates_max_kernel src coords lo k =
     (let kz = min (1/2) (k / 2);
          sh_src = shape src;
          u = coords ! 0 - lo ! 0;
          v = coords ! 1 - lo ! 1;
          w = coords ! 2 - lo ! 2;
          u0 = np_round (max 0 (min (real (sh_src ! 0)) (u - kz)));
          u1 = np_round (max 0 (min (real (sh_src ! 0)) (u + kz)));
          v0 = np_round (max 0 (min (real (sh_src ! 1)) (v - k)));
          v1 = np_round (max 0 (min (real (sh_src ! 1)) (v + k)));
          w0 = np_round (max 0 (min (real (sh_src ! 2)) (w - k)));
          w1 = np_round (max 0 (min (real (sh_src ! 2)) (w + k)))
      in case [item src [a, b, c]. a \<leftarrow> [nat u0..<nat u1], b \<leftarrow> [nat v0..<nat v1],
                                    c \<leftarrow> [nat w0..<nat w1]] of
           [] \<Rightarrow> Inl (ValueError ''zero-size array to reduction operation maximum which has no identity'')
         | x # xs \<Rightarrow> Inr (fold max xs x))"

section \<open>Bounding box and out-of-bounds check\<close>

definition list_min :: "'a::linorder list \<Rightarrow> 'a" where
  "list_min xs = fold min (tl xs) (hd xs)"

definition list_max :: "'a::linorder list \<Rightarrow> 'a" where
  "list_max xs = fold max (tl xs) (hd xs)"

text \<open>\<^verbatim>\<open>np.any(M[3,:3] != 0)\<close>, the test that guards the homogeneous divide, and
  \<^verbatim>\<open>np.allclose(M[3,:3], 0.0)\<close> with numpy's default tolerances, the test of the
  assertion before vectors are re-projected.\<close>

definition needs_divide :: "mat \<Rightarrow> bool" where
  "needs_divide M = (M ! 3 ! 0 \<noteq> 0 \<or> M ! 3 ! 1 \<noteq> 0 \<or> M ! 3 ! 2 \<noteq> 0)"

definition allclose_zero :: "mat \<Rightarrow> bool" where
  "allclose_zero M =
     (\<bar>M ! 3 ! 0\<bar> \<le> 1 / 10 ^ 8 \<and> \<bar>M ! 3 ! 1\<bar> \<le> 1 / 10 ^ 8 \<and> \<bar>M ! 3 ! 2\<bar> \<le> 1 / 10 ^ 8)"

text \<open>The homogeneous divide. Where the fourth component is zero the code divides by
  zero without raising: numpy yields infinities or NaN, and what their conversion to
  integers gives decides later whether the bounding box is out of bounds. That is the
  outcome \<open>NonFinite\<close> here: the embedding does not follow the code past such a
  division, and the theorem on the out-of-bounds error is stated for transforms that do
  not divide.\<close>

definition homogeneous_divide :: "real list \<Rightarrow> real list result" where
  "homogeneous_divide v = (if v ! 3 = 0 then Inl NonFinite else Inr (map (\<lambda>c. c / v ! 3) v))"

text \<open>One destination coordinate mapped to the source: \<^verbatim>\<open>M_inv\<close> applied, the
  homogeneous divide if \<^verbatim>\<open>M\<close> asks for it, the first three components kept.\<close>

definition to_source :: "mat \<Rightarrow> mat \<Rightarrow> real list \<Rightarrow> real list result" where
  "to_source M M_inv c =
     (let s = matvec M_inv c
      in if needs_divide M then and_then (homogeneous_divide s) (\<lambda>s'. Inr (take 3 s'))
         else Inr (take 3 s))"

definition bounding_box :: "mat \<Rightarrow> mat \<Rightarrow> patch_shape \<Rightarrow> (int list \<times> int list) result" where
  "bounding_box M M_inv ps =
     and_then (collect (map (to_source M M_inv) (make_dest_corners ps))) (\<lambda>src_corners.
       let lo = map (\<lambda>i. list_min (map (\<lambda>c. \<lfloor>c ! i\<rfloor>) src_corners)) [0, 1, 2];
           hi = map (\<lambda>i. list_max (map (\<lambda>c. \<lceil>c ! i + 1\<rceil>) src_corners)) [0, 1, 2]
       in Inr (lo, hi))"

text \<open>\<^verbatim>\<open>np.any(lo < 0) or np.any(hi >= sh)\<close>.\<close>

definition exceeds :: "int list \<Rightarrow> int list \<Rightarrow> nat list \<Rightarrow> bool" where
  "exceeds lo hi sh =
     (list_ex (\<lambda>l. l < 0) lo \<or> list_ex (\<lambda>(h, s). int s \<le> h) (zip hi sh))"

section \<open>The patch extraction \<^verbatim>\<open>warp_slice\<close>\<close>

text \<open>Lines 447 to 458: the input must have a channel axis.\<close>

definition inp_dims :: "'a ndarray \<Rightarrow> (nat \<times> nat list) result" where
  "inp_dims inp_src =
     (if length (shape inp_src) = 3 then Inl NotImplementedError
      else if length (shape inp_src) = 4 then Inr (hd (shape inp_src), tl (shape inp_src))
      else Inl (ValueError ''inp_src wrong dim/shape''))"

definition dims :: "patch_shape \<Rightarrow> nat list" where
  "dims ps = (case ps of (d, h, w) \<Rightarrow> [d, h, w])"

definition channel_voxels :: "nat \<Rightarrow> patch_shape \<Rightarrow> nat list list" where
  "channel_voxels n ps = [k # v. k \<leftarrow> [0..<n], v \<leftarrow> voxels ps]"

text \<open>\<^verbatim>\<open>src[:, lo[0]:hi[0]+1, lo[1]:hi[1]+1, lo[2]:hi[2]+1]\<close>, cast to
  \<^verbatim>\<open>floatX\<close>; used once the box is known to lie inside the array.\<close>

definition cut :: "('a \<Rightarrow> real) \<Rightarrow> 'a ndarray \<Rightarrow> int list \<Rightarrow> int list \<Rightarrow> real ndarray" where
  "cut cast src lo hi =
     \<lparr> shape = hd (shape src) # map (\<lambda>i. nat (hi ! i + 1 - lo ! i)) [0, 1, 2],
       item = (\<lambda>idx. cast (item src [idx ! 0, nat (lo ! 0) + idx ! 1, nat (lo ! 1) + idx ! 2,
                                      nat (lo ! 2) + idx ! 3])) \<rparr>"

definition channel :: "'a ndarray \<Rightarrow> nat \<Rightarrow> 'a ndarray" where
  "channel a k = \<lparr> shape = tl (shape a), item = (\<lambda>idx. item a (k # idx)) \<rparr>"

text \<open>The test of line 490 that sends a channel of the input to the max kernel.\<close>

definition use_max_kernel :: "real \<Rightarrow> bool \<Rightarrow> nat \<Rightarrow> nat \<Rightarrow> bool" where
  "use_max_kernel ksize last_ch_max_interp k n_f =
     (1/2 < ksize \<and> last_ch_max_interp \<and> int k = int n_f - 1)"

text \<open>
  \<^verbatim>\<open>warp_slice\<close> is one long function; it is cut here into its consecutive
  parts, each a definition of its own, so that their results can be named.

  Lines 473 to 478: the dense source coordinates of the patch.
\<close>

definition source_coords :: "mat \<Rightarrow> mat \<Rightarrow> patch_shape \<Rightarrow> (real list) ndarray result" where
  "source_coords M M_inv ps =
     tabulate (dims ps) (voxels ps) (\<lambda>v. to_source M M_inv (item (make_dest_coords ps) v))"

text \<open>Lines 479 to 493: the cut, and one kernel call per channel and voxel.\<close>

definition input_resample ::
  "('a \<Rightarrow> real) \<Rightarrow> 'a ndarray \<Rightarrow> nat \<Rightarrow> patch_shape \<Rightarrow> (real list) ndarray \<Rightarrow> int list \<Rightarrow> int list
     \<Rightarrow> bool \<Rightarrow> real \<Rightarrow> real ndarray result" where
  "input_resample cast inp_src n_f ps src_coords lo hi last_ch_max_interp ksize =
     (let img_cut = cut cast inp_src lo hi;
          lo_f = map of_int lo
      in tabulate (n_f # dims ps) (channel_voxels n_f ps)
           (\<lambda>idx. let k = hd idx; v = tl idx
                  in if use_max_kernel ksize last_ch_max_interp k n_f
                     then map_coordinates_max_kernel (channel img_cut k) (item src_coords v) lo_f ksize
                     else map_coordinates_linear (channel img_cut k) (item src_coords v) lo_f))"

text \<open>
  Lines 447 to 493, the input part: shape test, inverse, bounding box and its check,
  dense source coordinates, cut and kernels. It yields the warped input, the dense
  source coordinates and the spatial shape of the input, which the target part goes
  on with.
\<close>

definition warp_input ::
  "('a \<Rightarrow> real) \<Rightarrow> 'a ndarray \<Rightarrow> patch_shape \<Rightarrow> mat \<Rightarrow> bool \<Rightarrow> real
     \<Rightarrow> (real ndarray \<times> (real list) ndarray \<times> nat list) result" where
  "warp_input cast inp_src ps M last_ch_max_interp ksize =
     and_then (inp_dims inp_src) (\<lambda>(n_f, sh).
     and_then (linalg_inv M) (\<lambda>M_inv.
     and_then (bounding_box M M_inv ps) (\<lambda>(lo, hi).
       if exceeds lo hi sh then Inl (WarpingOOBError ''Out of bounds'')
       else
         and_then (source_coords M M_inv ps) (\<lambda>src_coords.
         and_then (input_resample cast inp_src n_f ps src_coords lo hi last_ch_max_interp ksize)
           (\<lambda>inp. Inr (inp, src_coords, sh))))))"

text \<open>
  An entry of \<^verbatim>\<open>target_vec_ix\<close> is a Python sequence of channel numbers. numpy
  indexes differently with a tuple and with a list: \<^verbatim>\<open>target[[a, b, c]]\<close>
  selects the three channels, \<^verbatim>\<open>target[(a, b, c)]\<close> is
  \<^verbatim>\<open>target[a, b, c]\<close>, one row of one channel.
\<close>

datatype py_seq = PyTuple "int list" | PyList "int list"

definition with_channel :: "real ndarray \<Rightarrow> nat \<Rightarrow> (nat list \<Rightarrow> real) \<Rightarrow> real ndarray" where
  "with_channel a c f = a\<lparr> item := (\<lambda>idx. if hd idx = c then f (tl idx) else item a idx) \<rparr>"

text \<open>Line 580 for one entry \<^verbatim>\<open>ix\<close>, after the assertion on its length:
  \<^verbatim>\<open>target[ix] = np.tensordot(M_lin, target[ix], axes=[[1],[0]])\<close>.\<close>

fun reproject :: "mat \<Rightarrow> real ndarray \<Rightarrow> py_seq \<Rightarrow> real ndarray result" where
  "reproject M_lin target (PyList ix) =
     (if length ix \<noteq> 3 then Inl AssertionError
      else case map (wrap_index (shape target ! 0)) ix of
             [Some a, Some b, Some c] \<Rightarrow>
               let Y = (\<lambda>i v. M_lin ! i ! 0 * item target (a # v) + M_lin ! i ! 1 * item target (b # v)
                              + M_lin ! i ! 2 * item target (c # v))
               in Inr (with_channel (with_channel (with_channel target a (Y 0)) b (Y 1)) c (Y 2))
           | _ \<Rightarrow> Inl IndexError)"
| "reproject M_lin target (PyTuple ix) =
     (if length ix \<noteq> 3 then Inl AssertionError
      else case map2 wrap_index (take 3 (shape target)) ix of
             [Some a, Some b, Some c] \<Rightarrow>
               if shape target ! 3 \<noteq> 3 then Inl (ValueError ''shape-mismatch for sum'')
               else
                 let Y = (\<lambda>i. M_lin ! i ! 0 * item target [a, b, c, 0]
                              + M_lin ! i ! 1 * item target [a, b, c, 1]
                              + M_lin ! i ! 2 * item target [a, b, c, 2])
                 in Inr (target\<lparr> item := (\<lambda>idx. if take 3 idx = [a, b, c] then Y (idx ! 3)
                                                 else item target idx) \<rparr>)
           | _ \<Rightarrow> Inl IndexError)"

fun reproject_all :: "mat \<Rightarrow> real ndarray \<Rightarrow> py_seq list \<Rightarrow> real ndarray result" where
  "reproject_all M_lin target [] = Inr target"
| "reproject_all M_lin target (ix # ixs) =
     and_then (reproject M_lin target ix) (\<lambda>t. reproject_all M_lin t ixs)"

text \<open>Lines 564 to 567: which target channels are discrete.\<close>

definition discrete_flags :: "int list option \<Rightarrow> nat \<Rightarrow> bool list" where
  "discrete_flags target_discrete_ix n_f_t =
     (case target_discrete_ix of
        None \<Rightarrow> map (\<lambda>i. True) [0..<n_f_t]
      | Some ds \<Rightarrow> map (\<lambda>i. int i \<in> set ds) [0..<n_f_t])"

text \<open>
  Lines 498 to 516: the two centering tests, the coordinates of the target patch (the
  centred part of the dense coordinates) and the bounding box of the target, with the
  offset \<^verbatim>\<open>off\<close> between the two volumes. The target patch is not larger than
  the input patch; a larger one is \<open>Unsupported\<close>.
\<close>

definition target_coords ::
  "nat list \<Rightarrow> patch_shape \<Rightarrow> (real list) ndarray \<Rightarrow> nat list \<Rightarrow> patch_shape
     \<Rightarrow> ((real list) ndarray \<times> int list \<times> int list \<times> int list) result" where
  "target_coords sh ps src_coords tsh tps =
     (let off = map2 (\<lambda>s t. int s - int t) sh tsh
      in if list_ex (\<lambda>x. x mod 2 \<noteq> 0) off
         then Inl (ValueError ''targets must be centered w.r.t. images'')
         else
      let off = map (\<lambda>x. x div 2) off;
          off_ps = map2 (\<lambda>p t. int p - int t) (dims ps) (dims tps)
      in if list_ex (\<lambda>x. x mod 2 \<noteq> 0) off_ps
         then Inl (ValueError ''targets must be centered w.r.t. images'')
         else
      let off_ps = map (\<lambda>x. x div 2) off_ps
      in if list_ex (\<lambda>x. x < 0) off_ps then Inl Unsupported
         else
      let src_coords_target =
            \<lparr> shape = dims tps,
              item = (\<lambda>idx. item src_coords (map2 (\<lambda>a i. nat a + i) off_ps idx)) \<rparr>;
          cs = map (item src_coords_target) (voxels tps)
      in if cs = []
         then Inl (ValueError ''zero-size array to reduction operation minimum which has no identity'')
         else
      let lo_targ = map (\<lambda>i. \<lfloor>list_min (map (\<lambda>c. c ! i) cs) - of_int (off ! i)\<rfloor>) [0, 1, 2];
          hi_targ = map (\<lambda>i. \<lceil>list_max (map (\<lambda>c. c ! i) cs) - of_int (off ! i) + 1\<rceil>) [0, 1, 2]
      in Inr (src_coords_target, lo_targ, hi_targ, off))"

text \<open>Lines 519 to 573: the cut of the target, and one kernel call per channel and
  voxel, nearest or linear.\<close>

definition target_resample ::
  "('a \<Rightarrow> real) \<Rightarrow> 'a ndarray \<Rightarrow> patch_shape \<Rightarrow> (real list) ndarray \<Rightarrow> int list \<Rightarrow> int list
     \<Rightarrow> int list \<Rightarrow> int list option \<Rightarrow> real ndarray result" where
  "target_resample cast target_src tps src_coords_target lo_targ hi_targ off target_discrete_ix =
     (let n_f_t = hd (shape target_src);
          target_cut = cut cast target_src lo_targ hi_targ;
          lo_f = map2 (\<lambda>l a. of_int (l + a)) lo_targ off;
          flags = discrete_flags target_discrete_ix n_f_t
      in tabulate (n_f_t # dims tps) (channel_voxels n_f_t tps)
           (\<lambda>idx. let k = hd idx; v = tl idx
                  in if flags ! k
                     then map_coordinates_nearest (channel target_cut k)
                            (item src_coords_target v) lo_f
                     else map_coordinates_linear (channel target_cut k)
                            (item src_coords_target v) lo_f))"

text \<open>Lines 575 to 580: vectors are transformed again.\<close>

definition target_reproject :: "mat \<Rightarrow> real ndarray \<Rightarrow> py_seq list option \<Rightarrow> real ndarray result" where
  "target_reproject M target target_vec_ix =
     (case target_vec_ix of
        None \<Rightarrow> Inr target
      | Some ixs \<Rightarrow>
          if \<not> allclose_zero M then Inl AssertionError
          else reproject_all M target ixs)"

text \<open>
  Lines 495 to 580, the target part. The target is an array of shape
  \<open>(C, D, H, W)\<close>; another number of axes is \<open>Unsupported\<close>.
\<close>

definition warp_target ::
  "('a \<Rightarrow> real) \<Rightarrow> mat \<Rightarrow> nat list \<Rightarrow> patch_shape \<Rightarrow> (real list) ndarray \<Rightarrow> 'a ndarray
     \<Rightarrow> patch_shape option \<Rightarrow> py_seq list option \<Rightarrow> int list option \<Rightarrow> real ndarray result" where
  "warp_target cast M sh ps src_coords target_src target_ps target_vec_ix target_discrete_ix =
     (case target_ps of
        None \<Rightarrow> Inl TypeError
      | Some tps \<Rightarrow>
          if length (shape target_src) \<noteq> 4 then Inl Unsupported
          else
            and_then (target_coords sh ps src_coords (tl (shape target_src)) tps)
              (\<lambda>(src_coords_target, lo_targ, hi_targ, off).
                 if exceeds lo_targ hi_targ (tl (shape target_src))
                 then Inl (WarpingOOBError ''Out of bounds for target_src'')
                 else
                   and_then (target_resample cast target_src tps src_coords_target lo_targ hi_targ
                               off target_discrete_ix)
                     (\<lambda>target. target_reproject M target target_vec_ix)))"

definition warp_slice ::
  "('a \<Rightarrow> real) \<Rightarrow> 'a ndarray \<Rightarrow> patch_shape \<Rightarrow> mat \<Rightarrow> 'a ndarray option \<Rightarrow> patch_shape option
     \<Rightarrow> py_seq list option \<Rightarrow> int list option \<Rightarrow> bool \<Rightarrow> real
     \<Rightarrow> (real ndarray \<times> real ndarray option) result" where
  "warp_slice cast inp_src ps M target_src target_ps target_vec_ix target_discrete_ix
              last_ch_max_interp ksize =
     and_then (warp_input cast inp_src ps M last_ch_max_interp ksize) (\<lambda>(inp, src_coords, sh).
       case target_src of
         None \<Rightarrow> Inr (inp, None)
       | Some t \<Rightarrow>
           and_then (warp_target cast M sh ps src_coords t target_ps target_vec_ix
                       target_discrete_ix)
                    (\<lambda>target. Inr (inp, Some target)))"

section \<open>The assemblers \<^verbatim>\<open>get_tracing_slice\<close> and \<^verbatim>\<open>get_warped_slice\<close>\<close>

text \<open>Line 608: \<^verbatim>\<open>ksize = min(0.5, 0.5/scale_factor)\<close>, a division of Python
  floats.\<close>

definition tracing_ksize :: "real \<Rightarrow> real result" where
  "tracing_ksize scale_factor =
     (if scale_factor = 0 then Inl ZeroDivisionError
      else Inr (min (1/2) ((1/2) / scale_factor)))"

text \<open>\<^verbatim>\<open>get_tracing_slice\<close> returns the warped input, the warped target and the
  matrix; the state in which it leaves the generator is returned with them.\<close>

definition get_tracing_slice ::
  "'s random_ops \<Rightarrow> ('a \<Rightarrow> real) \<Rightarrow> 'a ndarray \<Rightarrow> patch_shape \<Rightarrow> real \<times> real \<times> real \<Rightarrow> real
     \<Rightarrow> real \<Rightarrow> bool \<Rightarrow> gamma_arg \<Rightarrow> real \<Rightarrow> real list \<Rightarrow> 'a ndarray option
     \<Rightarrow> patch_shape option \<Rightarrow> py_seq list option \<Rightarrow> int list option \<Rightarrow> 's option \<Rightarrow> bool \<Rightarrow> 's
     \<Rightarrow> ((real ndarray \<times> real ndarray option \<times> mat) \<times> 's option) result" where
  "get_tracing_slice R cast img ps pos z_shift aniso_factor sample_aniso gamma scale_factor
       direction_iso target target_ps target_vec_ix target_discrete_ix rng last_ch_max_interp glob =
     (let rng0 = (case rng of None \<Rightarrow> fresh_state R | Some s \<Rightarrow> s);
          dest_center = (case ps of (d, h, w) \<Rightarrow> [real d / 2 - z_shift, real h / 2, real w / 2])
      in and_then (get_rotmat_from_direc R direction_iso gamma (Some rng0) glob)
           (\<lambda>(Rm, rng', glob').
         let T_src = (case pos of (p0, p1, p2) \<Rightarrow> translate (- p0) (- p1) (- p2));
             S_src = scale aniso_factor 1 1;
             S_zoom = scale scale_factor scale_factor scale_factor
         in and_then (if sample_aniso then scale_inv aniso_factor 1 1 else Inr identity)
              (\<lambda>S_dest.
            let T_dest = translate (dest_center ! 0) (dest_center ! 1) (dest_center ! 2);
                M = chain_matrices [T_dest, S_zoom, S_dest, Rm, S_src, T_src]
            in and_then (tracing_ksize scale_factor) (\<lambda>ksize.
               and_then (warp_slice cast img ps M target target_ps target_vec_ix
                           target_discrete_ix last_ch_max_interp ksize)
                 (\<lambda>(img_new, target_new). Inr ((img_new, target_new, M), rng'))))))"

text \<open>\<^verbatim>\<open>np.isclose(warp_amount, 0)\<close> with numpy's default tolerances.\<close>

definition isclose_zero :: "real \<Rightarrow> bool" where
  "isclose_zero a = (\<bar>a\<bar> \<le> 1 / 10 ^ 8)"

text \<open>
  \<^verbatim>\<open>get_warped_slice\<close>, in its consecutive parts.

  Lines 682 to 694: the range \<open>[lo_pos, hi_pos)\<close> of the random centre, from the
  3d patch shapes.
\<close>

definition position_range ::
  "'a ndarray \<Rightarrow> nat list \<Rightarrow> 'a ndarray option \<Rightarrow> nat list option \<Rightarrow> (real list \<times> real list) result" where
  "position_range inp_src ps target_src target_ps =
     (let dest_center = map (\<lambda>p. real p / 2) ps;
          inp_sh = tl (shape inp_src)
      in and_then
           (case target_ps of
              Some tps \<Rightarrow>
                (case target_src of
                   None \<Rightarrow> Inl AttributeError
                 | Some t \<Rightarrow>
                     if length (shape t) \<noteq> 4 then Inl Unsupported
                     else
                       let t_sh = tl (shape t);
                           t_center = map (\<lambda>p. real p / 2) tps;
                           off = map2 (\<lambda>a b. (int a - int b) div 2) inp_sh t_sh;
                           lo_pos = map (\<lambda>i. max (dest_center ! i) (t_center ! i + of_int (off ! i)))
                                        [0, 1, 2];
                           hi_pos = map (\<lambda>i. min (real (inp_sh ! i) - dest_center ! i)
                                                  (real (t_sh ! i) - t_center ! i + of_int (off ! i)))
                                        [0, 1, 2]
                       in Inr (lo_pos, hi_pos))
            | None \<Rightarrow>
                Inr (dest_center, map (\<lambda>i. real (inp_sh ! i) - dest_center ! i) [0, 1, 2]))
           (\<lambda>(lo_pos, hi_pos).
              if \<not> list_all (\<lambda>i. lo_pos ! i < hi_pos ! i) [0, 1, 2] then Inl AssertionError
              else Inr (lo_pos, hi_pos)))"

text \<open>Lines 695 to 697: the centre \<open>(z, y, x)\<close>.\<close>

definition random_position ::
  "'s random_ops \<Rightarrow> real list \<Rightarrow> real list \<Rightarrow> nat list \<Rightarrow> 's \<Rightarrow> (real \<times> real \<times> real) \<times> 's" where
  "random_position R lo_pos hi_pos ps rng0 =
     (let src_remainder = map (\<lambda>p. real (p mod 2) / 2) ps;
          (rz, rng1) = randint R (lo_pos ! 0) (hi_pos ! 0) rng0;
          z = of_int rz + src_remainder ! 0;
          (ry, rng2) = randint R (lo_pos ! 1) (hi_pos ! 1) rng1;
          y = of_int ry + src_remainder ! 1;
          (rx, rng3) = randint R (lo_pos ! 2) (hi_pos ! 2) rng2;
          x = of_int rx + src_remainder ! 2
      in ((z, y, x), rng3))"

text \<open>Lines 699 to 702: the swap matrix \<^verbatim>\<open>S\<close>.\<close>

definition swap_or_eye :: "'s random_ops \<Rightarrow> bool \<Rightarrow> bool \<Rightarrow> 's \<Rightarrow> (mat \<times> 's) result" where
  "swap_or_eye R no_x_flip lock_z rng =
     (if no_x_flip then Inr (eye4, rng)
      else get_random_swapmat R lock_z (Some rng))"

text \<open>Lines 704 to 709: the rotation \<^verbatim>\<open>R\<close> and the warp \<^verbatim>\<open>W\<close>.\<close>

definition rot_and_warp ::
  "'s random_ops \<Rightarrow> bool \<Rightarrow> bool \<Rightarrow> real \<Rightarrow> 's \<Rightarrow> 's \<Rightarrow> mat \<times> mat \<times> 's \<times> 's" where
  "rot_and_warp R lock_z perspective warp_amount rng glob =
     (if isclose_zero warp_amount then (eye4, eye4, rng, glob)
      else
        let (Rm, rng') = get_random_rotmat R lock_z warp_amount (Some rng);
            (W, glob') = get_random_warpmat R lock_z perspective warp_amount (Some rng') glob
        in (Rm, W, rng', glob'))"

text \<open>Lines 675 to 680: a 2d patch shape gets a leading 1, and so does the patch shape
  of the target if there is a target.\<close>

definition patch_shapes_3d ::
  "nat list \<Rightarrow> 'a ndarray option \<Rightarrow> nat list option \<Rightarrow> (nat list \<times> nat list option) result" where
  "patch_shapes_3d ps target_src target_ps =
     (if length ps = 2 then
        (case target_src of
           None \<Rightarrow> Inr (1 # ps, target_ps)
         | Some t \<Rightarrow>
             (case target_ps of
                None \<Rightarrow> Inl TypeError
              | Some tp \<Rightarrow> Inr (1 # ps, Some (1 # tp))))
      else Inr (ps, target_ps))"

text \<open>Lines 714 to 717: \<^verbatim>\<open>S_dest\<close>, with the division \<^verbatim>\<open>1.0 / aniso_factor\<close>
  of Python numbers.\<close>

definition dest_scale :: "bool \<Rightarrow> real \<Rightarrow> mat result" where
  "dest_scale sample_aniso aniso_factor =
     (if sample_aniso
      then (if aniso_factor = 0 then Inl ZeroDivisionError
            else Inr (scale (1 / aniso_factor) 1 1))
      else Inr identity)"

text \<open>
  Lines 673 to 718: the eight matrices in the order in which line 720 chains them,
  \<^verbatim>\<open>[T_dest, S_dest, R, W, F, S, S_src, T_src]\<close>, with the 3d patch shapes and
  the generator states. The input is an array of shape \<open>(C, D, H, W)\<close>, the patch
  shapes have two or three entries; other shapes are \<open>Unsupported\<close>.
\<close>

definition warp_matrices ::
  "'s random_ops \<Rightarrow> 'a ndarray \<Rightarrow> nat list \<Rightarrow> real \<Rightarrow> bool \<Rightarrow> real \<Rightarrow> bool \<Rightarrow> bool \<Rightarrow> bool
     \<Rightarrow> 'a ndarray option \<Rightarrow> nat list option \<Rightarrow> 's option \<Rightarrow> 's
     \<Rightarrow> (mat list \<times> nat list \<times> nat list option \<times> 's \<times> 's) result" where
  "warp_matrices R inp_src ps aniso_factor sample_aniso warp_amount lock_z no_x_flip perspective
       target_src target_ps rng glob =
     (let rng0 = (case rng of None \<Rightarrow> fresh_state R | Some s \<Rightarrow> s)
      in and_then (patch_shapes_3d ps target_src target_ps) (\<lambda>(ps, target_ps).
           if length ps \<noteq> 3 \<or> length (shape inp_src) \<noteq> 4
              \<or> (case target_ps of None \<Rightarrow> False | Some t \<Rightarrow> length t \<noteq> 3)
           then Inl Unsupported
           else
             and_then (position_range inp_src ps target_src target_ps) (\<lambda>(lo_pos, hi_pos).
               let ((z, y, x), rng3) = random_position R lo_pos hi_pos ps rng0;
                   (F, rng4) = get_random_flipmat R no_x_flip (Some rng3)
               in and_then (swap_or_eye R no_x_flip lock_z rng4) (\<lambda>(S, rng5).
                    let (Rm, W, rng6, glob') =
                          rot_and_warp R lock_z perspective warp_amount rng5 glob;
                        T_src = translate (- z) (- y) (- x);
                        S_src = scale aniso_factor 1 1
                    in and_then (dest_scale sample_aniso aniso_factor) (\<lambda>S_dest.
                         let T_dest = translate (real (ps ! 0) / 2) (real (ps ! 1) / 2)
                                        (real (ps ! 2) / 2)
                         in Inr ([T_dest, S_dest, Rm, W, F, S, S_src, T_src],
                                 ps, target_ps, rng6, glob'))))))"

definition as_patch_shape :: "nat list \<Rightarrow> patch_shape" where
  "as_patch_shape ps = (ps ! 0, ps ! 1, ps ! 2)"

text \<open>\<^verbatim>\<open>a[:, 0]\<close> on an array of four axes.\<close>

definition strip_axis :: "'a ndarray \<Rightarrow> 'a ndarray" where
  "strip_axis a =
     \<lparr> shape = [shape a ! 0, shape a ! 2, shape a ! 3],
       item = (\<lambda>idx. item a [idx ! 0, 0, idx ! 1, idx ! 2]) \<rparr>"

definition get_warped_slice ::
  "'s random_ops \<Rightarrow> ('a \<Rightarrow> real) \<Rightarrow> 'a ndarray \<Rightarrow> nat list \<Rightarrow> real \<Rightarrow> bool \<Rightarrow> real \<Rightarrow> bool \<Rightarrow> bool
     \<Rightarrow> bool \<Rightarrow> 'a ndarray option \<Rightarrow> nat list option \<Rightarrow> py_seq list option \<Rightarrow> int list option
     \<Rightarrow> 's option \<Rightarrow> 's \<Rightarrow> ((real ndarray \<times> real ndarray option) \<times> 's \<times> 's) result" where
  "get_warped_slice R cast inp_src ps aniso_factor sample_aniso warp_amount lock_z no_x_flip
       perspective target_src target_ps target_vec_ix target_discrete_ix rng glob =
     and_then (warp_matrices R inp_src ps aniso_factor sample_aniso warp_amount lock_z no_x_flip
                 perspective target_src target_ps rng glob)
       (\<lambda>(mats, ps3, target_ps3, rng', glob').
          let M = chain_matrices mats
          in and_then (warp_slice cast inp_src (as_patch_shape ps3) M target_src
                         (map_option as_patch_shape target_ps3) target_vec_ix target_discrete_ix
                         False (1/2))
               (\<lambda>(inp, target).
                  if length ps = 2
                  then Inr ((strip_axis inp, map_option strip_axis target), rng', glob')
                  else Inr ((inp, target), rng', glob')))"

section \<open>Concrete inputs\<close>

text \<open>A volume whose item at an index is the number written with the index as its
  decimal digits, so that different voxels hold different values.\<close>

definition digits_volume :: "nat list \<Rightarrow> real ndarray" where
  "digits_volume sh = \<lparr> shape = sh, item = (\<lambda>idx. real (foldl (\<lambda>a i. 10 * a + i) 0 idx)) \<rparr>"

definition no_cast :: "real \<Rightarrow> real" where
  "no_cast x = x"

section \<open>Properties of the matrix builders and samplers\<close>

lemma chain_matrices_rot3:
  "chain_matrices [rotate_z a, rotate_y b, rotate_z c] = dot (rotate_z a) (dot (rotate_y b) (rotate_z c))"
  by (simp add: chain_matrices_def dot_def identity_def eye4_def rotate_z_def rotate_y_def
                algebra_simps)

text \<open>
  C9. For a direction of three components whose norm is within \<open>1e-3\<close> of 1,
  \<^verbatim>\<open>get_rotmat_from_direc\<close> returns
  \<open>rotate_z gamma \<cdot> rotate_y (- theta) \<cdot> rotate_z (- phi)\<close> with
  \<open>phi = arctan2 (direc[2], direc[1])\<close> and \<open>theta = arccos (direc[0])\<close>, where
  \<open>gamma\<close> is the angle given, 0 for \<^verbatim>\<open>None\<close>, or the angle drawn for
  \<^verbatim>\<open>'rand'\<close>; for any other direction the assertion fails, whatever
  \<^verbatim>\<open>gamma\<close> is.
\<close>

theorem get_rotmat_from_direc_product:
  "get_rotmat_from_direc R [d0, d1, d2] gamma rng glob =
     (let (g, rng', glob') = resolve_gamma R gamma rng glob
      in if \<bar>linalg_norm [d0, d1, d2] - 1\<bar> < 1 / 1000
         then Inr (dot (rotate_z g) (dot (rotate_y (- arccos d0)) (rotate_z (- arctan2 d2 d1))),
                   rng', glob')
         else Inl AssertionError)"
  by (simp add: get_rotmat_from_direc_def get_euler_angles_def and_then_def chain_matrices_rot3
           split: prod.splits)

theorem get_rotmat_from_direc_product_witness:
  "get_rotmat_from_direc tape_ops [1, 0, 0] (GammaVal 0) None (const_tape 0)
     = Inr (eye4, None, const_tape 0)
   \<and> get_rotmat_from_direc tape_ops [2, 0, 0] GammaNone None (const_tape 0) = Inl AssertionError"
  using get_rotmat_from_direc_product [of tape_ops 1 0 0 "GammaVal 0" None "const_tape 0"]
        get_rotmat_from_direc_product [of tape_ops 2 0 0 GammaNone None "const_tape 0"]
  by (simp add: resolve_gamma_def linalg_norm_def arctan2_def dot_def rotate_z_def rotate_y_def
                eye4_def)

section \<open>Properties of the assemblers\<close>

lemma and_then_cong_weak:
  "(\<And>x. r = Inr x \<Longrightarrow> f x = g x) \<Longrightarrow> and_then r f = and_then r g"
  by (cases r) (simp_all add: and_then_def)

lemma tracing_ksize_le: "tracing_ksize sf = Inr k \<Longrightarrow> k \<le> 1/2"
  by (auto simp: tracing_ksize_def split: if_splits)

lemma use_max_kernel_small: "k \<le> 1/2 \<Longrightarrow> use_max_kernel k b c n = False"
  by (simp add: use_max_kernel_def)

lemma input_resample_small_ksize:
  "k \<le> 1/2 \<Longrightarrow> input_resample cast img n ps sc lo hi True k
                = input_resample cast img n ps sc lo hi False k"
  by (simp add: input_resample_def use_max_kernel_small)

lemma warp_slice_small_ksize:
  "k \<le> 1/2 \<Longrightarrow> warp_slice cast img ps M t tps tv td True k
                = warp_slice cast img ps M t tps tv td False k"
  by (simp add: warp_slice_def warp_input_def input_resample_small_ksize cong: if_cong)

text \<open>
  C3. The kernel size that \<^verbatim>\<open>get_tracing_slice\<close> hands to
  \<^verbatim>\<open>warp_slice\<close> is \<open>min(0.5, 0.5/scale_factor)\<close>. It never exceeds 0.5, so
  the test \<^verbatim>\<open>ksize > 0.5\<close> of \<^verbatim>\<open>warp_slice\<close> fails for every scale
  factor and the max kernel is never applied: calling with
  \<^verbatim>\<open>last_ch_max_interp=True\<close> gives what calling with \<^verbatim>\<open>False\<close> gives.
  At \<open>scale_factor = 1/4\<close>, where four source voxels fold into one, the size is
  0.5 and the last channel is resampled linearly.
\<close>

theorem get_tracing_slice_never_max_kernel:
  "get_tracing_slice R cast img ps pos z_shift aniso_factor sample_aniso gamma scale_factor
       direction_iso target target_ps target_vec_ix target_discrete_ix rng True glob
   = get_tracing_slice R cast img ps pos z_shift aniso_factor sample_aniso gamma scale_factor
       direction_iso target target_ps target_vec_ix target_discrete_ix rng False glob
   \<and> tracing_ksize (1/4) = Inr (1/2)
   \<and> \<not> use_max_kernel (1/2) True k n_f"
proof (intro conjI)
  show "get_tracing_slice R cast img ps pos z_shift aniso_factor sample_aniso gamma scale_factor
       direction_iso target target_ps target_vec_ix target_discrete_ix rng True glob
   = get_tracing_slice R cast img ps pos z_shift aniso_factor sample_aniso gamma scale_factor
       direction_iso target target_ps target_vec_ix target_discrete_ix rng False glob"
    unfolding get_tracing_slice_def Let_def
    apply (rule and_then_cong_weak)
    apply (simp only: split_beta)
    apply (rule and_then_cong_weak)
    apply (rule and_then_cong_weak)
    apply (drule tracing_ksize_le)
    apply (simp only: warp_slice_small_ksize)
    done
  show "tracing_ksize (1/4) = Inr (1/2)"
    by (simp add: tracing_ksize_def)
  show "\<not> use_max_kernel (1/2) True k n_f"
    by (simp add: use_max_kernel_def)
qed

theorem get_tracing_slice_never_max_kernel_witness:
  "get_tracing_slice tape_ops no_cast (digits_volume [2, 4, 4, 4]) (2, 2, 2) (2, 2, 2) 0 2 True
       (GammaVal 0) (1/4) [1, 0, 0] None None None None None True (const_tape 0)
   = get_tracing_slice tape_ops no_cast (digits_volume [2, 4, 4, 4]) (2, 2, 2) (2, 2, 2) 0 2 True
       (GammaVal 0) (1/4) [1, 0, 0] None None None None None False (const_tape 0)
   \<and> tracing_ksize (1/4) = Inr (1/2)
   \<and> \<not> use_max_kernel (1/2) True 1 2"
  using get_tracing_slice_never_max_kernel
          [of tape_ops no_cast "digits_volume [2, 4, 4, 4]" "(2, 2, 2)" "(2, 2, 2)" 0 2 True
              "GammaVal 0" "1/4" "[1, 0, 0]" None None None None None "const_tape 0" 1 2]
  by simp

section \<open>The random warp matrix\<close>

lemma set_entry_row3:
  "set_entry [r0, r1, r2, [a, b, c, d]] 3 0 v = [r0, r1, r2, [v, b, c, d]]"
  "set_entry [r0, r1, r2, [a, b, c, d]] 3 1 v = [r0, r1, r2, [a, v, c, d]]"
  "set_entry [r0, r1, r2, [a, b, c, d]] 3 2 v = [r0, r1, r2, [a, b, v, d]]"
  "set_entry [r0, r1, r2, [a, b, c, d]] 3 3 v = [r0, r1, r2, [a, b, c, v]]"
  by (simp_all add: set_entry_def numeral_3_eq_3)

lemma zero_row_explicit:
  "zero_row [[a0, a1, a2, a3], r1, r2, r3] 0 = [[0, 0, 0, 0], r1, r2, r3]"
  "zero_row [r0, r1, r2, [d0, d1, d2, d3]] 3 = [r0, r1, r2, [0, 0, 0, 0]]"
  by (simp_all add: zero_row_def numeral_3_eq_3)

lemma zero_col_explicit:
  "zero_col [[a0, a1, a2, a3], [b0, b1, b2, b3], [c0, c1, c2, c3], [d0, d1, d2, d3]] 0
     = [[0, a1, a2, a3], [0, b1, b2, b3], [0, c1, c2, c3], [0, d1, d2, d3]]"
  by (simp add: zero_col_def)

lemma nth_row4:
  "[r0, r1, r2, r3] ! 0 = r0" "[r0, r1, r2, r3] ! 1 = r1" "[r0, r1, r2, r3] ! 2 = r2"
  "[r0, r1, r2, r3] ! 3 = r3"
  by simp_all

lemma warp_perturb_explicit:
  "warp_perturb lock_z perspective
     [[a0, a1, a2, a3], [b0, b1, b2, b3], [c0, c1, c2, c3], [d0, d1, d2, d3]]
   = [if lock_z then [0, 0, 0, 0] else [a0, a1, a2, a3],
      [if lock_z then 0 else b0, b1, b2, b3],
      [if lock_z then 0 else c0, c1, c2, c3],
      if perspective
      then [np_clip ((if lock_z then 0 else d0) * (5 / 100)) (- (3 / 1000)) (3 / 1000),
            np_clip (d1 * (5 / 100)) (- (3 / 1000)) (3 / 1000),
            np_clip (d2 * (5 / 100)) (- (3 / 1000)) (3 / 1000), 0]
      else [np_clip (0 * (5 / 100)) (- (3 / 1000)) (3 / 1000),
            np_clip (0 * (5 / 100)) (- (3 / 1000)) (3 / 1000),
            np_clip (0 * (5 / 100)) (- (3 / 1000)) (3 / 1000), 0]]"
  unfolding warp_perturb_def Let_def
  by (cases lock_z; cases perspective)
     (simp_all only: set_entry_row3 zero_row_explicit zero_col_explicit nth_row4 foldl.simps
                     if_True if_False not_True_eq_False not_False_eq_True)

lemma np_clip_zero: "np_clip (0 * (5 / 100)) (- (3 / 1000)) (3 / 1000) = 0"
  by (simp add: np_clip_def)

lemma np_clip_bound:
  "- a \<le> x \<Longrightarrow> x \<le> a \<Longrightarrow>
     - a \<le> np_clip (x * (5 / 100)) (- (3 / 1000)) (3 / 1000)
     \<and> np_clip (x * (5 / 100)) (- (3 / 1000)) (3 / 1000) \<le> a"
  by (auto simp: np_clip_def min_def max_def)

lemma reshape44_explicit:
  "reshape44 xs = [[xs ! 0, xs ! 1, xs ! 2, xs ! 3], [xs ! 4, xs ! 5, xs ! 6, xs ! 7],
                   [xs ! 8, xs ! 9, xs ! 10, xs ! 11], [xs ! 12, xs ! 13, xs ! 14, xs ! 15]]"
  by (simp add: reshape44_def numeral_2_eq_2)

lemma mat_add_eye4_explicit:
  "mat_add eye4 [[a0, a1, a2, a3], [b0, b1, b2, b3], [c0, c1, c2, c3], [d0, d1, d2, d3]]
   = [[1 + a0, a1, a2, a3], [b0, 1 + b1, b2, b3], [c0, c1, 1 + c2, c3], [d0, d1, d2, 1 + d3]]"
  by (simp add: mat_add_def eye4_def)

lemma get_random_warpmat_unfold:
  "uniform R (- (amount * (1 / 10))) (amount * (1 / 10)) 16 glob = (draws, glob')
   \<Longrightarrow> get_random_warpmat R lock_z perspective amount rng glob
       = (mat_add eye4 (warp_perturb lock_z perspective (reshape44 draws)), glob')"
  by (simp add: get_random_warpmat_def)

lemma all_less_4: "(\<forall>i<4. Q i) \<longleftrightarrow> Q 0 \<and> Q 1 \<and> Q 2 \<and> Q (3::nat)"
proof -
  have "{..<4::nat} = {0, 1, 2, 3}" by auto
  then show ?thesis by (metis (no_types, lifting) insert_iff lessThan_iff empty_iff)
qed

lemma all_less_3: "(\<forall>i<3. Q i) \<longleftrightarrow> Q 0 \<and> Q 1 \<and> Q (2::nat)"
proof -
  have "{..<3::nat} = {0, 1, 2}" by auto
  then show ?thesis by (metis (no_types, lifting) insert_iff lessThan_iff empty_iff)
qed


lemma tape_uniform_const:
  "uniform tape_ops lo hi n (const_tape c)
     = (replicate n (lo + (hi - lo) * c), tape_drop n (const_tape c))"
  by (simp add: tape_ops_def tape_take_def const_tape_def comp_def map_replicate_const)

text \<open>
  C5, as the code has it. \<^verbatim>\<open>get_random_warpmat\<close> returns the 4x4 identity plus a
  perturbation \<open>P\<close>, made from sixteen uniform draws \<open>raw\<close> in
  \<open>[-0.1 amount, 0.1 amount]\<close>. Every entry of \<open>P\<close> lies in that range;
  \<open>P[3,3] = 0\<close>; with \<^verbatim>\<open>lock_z\<close> the first row and the first column of
  \<open>P\<close> are zero; without \<^verbatim>\<open>perspective\<close> the last row of \<open>P\<close> is
  zero; with \<^verbatim>\<open>perspective\<close> the first three entries of the last row are the draws
  scaled by 0.05 and clipped to \<open>[-3e-3, 3e-3]\<close>. Nothing zeroes the last column: the
  entries of the first three rows, the last column among them, are the draws themselves
  (but for the row and column that \<^verbatim>\<open>lock_z\<close> zeroes).
\<close>

theorem get_random_warpmat_perturbation:
  fixes amount :: real
  assumes draw: "uniform R (- (amount * (1 / 10))) (amount * (1 / 10)) 16 glob = (draws, glob')"
    and len: "length draws = 16"
    and range: "\<forall>x\<in>set draws. - (amount * (1 / 10)) \<le> x \<and> x \<le> amount * (1 / 10)"
    and raw: "raw = reshape44 draws"
    and P: "P = warp_perturb lock_z perspective raw"
  shows "get_random_warpmat R lock_z perspective amount rng glob = (mat_add eye4 P, glob')
    \<and> (\<forall>i<4. \<forall>j<4. mat_add eye4 P ! i ! j = eye4 ! i ! j + P ! i ! j)
    \<and> (\<forall>i<4. \<forall>j<4. - (amount * (1 / 10)) \<le> P ! i ! j \<and> P ! i ! j \<le> amount * (1 / 10))
    \<and> P ! 3 ! 3 = 0
    \<and> (lock_z \<longrightarrow> (\<forall>j<4. P ! 0 ! j = 0 \<and> P ! j ! 0 = 0))
    \<and> (\<not> perspective \<longrightarrow> (\<forall>j<4. P ! 3 ! j = 0))
    \<and> (perspective \<longrightarrow>
         (\<forall>j<3. P ! 3 ! j = np_clip ((if lock_z \<and> j = 0 then 0 else raw ! 3 ! j) * (5 / 100))
                                   (- (3 / 1000)) (3 / 1000)))
    \<and> (\<forall>i<3. \<forall>j<4. \<not> (lock_z \<and> (i = 0 \<or> j = 0)) \<longrightarrow> P ! i ! j = raw ! i ! j)"
proof -
  define a where "a = amount * (1 / 10)"
  have bound: "- a \<le> draws ! k \<and> draws ! k \<le> a" if "k < 16" for k
    using range len that by (simp add: nth_mem a_def)
  then have lo: "- a \<le> draws ! k" and hi: "draws ! k \<le> a" if "k < 16" for k
    using that by blast+
  from bound [of 0] have a0: "0 \<le> a" "- a \<le> 0" by linarith+
  have Pex: "P = [if lock_z then [0, 0, 0, 0] else [draws ! 0, draws ! 1, draws ! 2, draws ! 3],
      [if lock_z then 0 else draws ! 4, draws ! 5, draws ! 6, draws ! 7],
      [if lock_z then 0 else draws ! 8, draws ! 9, draws ! 10, draws ! 11],
      if perspective
      then [np_clip ((if lock_z then 0 else draws ! 12) * (5 / 100)) (- (3 / 1000)) (3 / 1000),
            np_clip (draws ! 13 * (5 / 100)) (- (3 / 1000)) (3 / 1000),
            np_clip (draws ! 14 * (5 / 100)) (- (3 / 1000)) (3 / 1000), 0]
      else [0, 0, 0, 0]]"
    unfolding P raw reshape44_explicit warp_perturb_explicit np_clip_zero ..
  have rawex: "raw = [[draws ! 0, draws ! 1, draws ! 2, draws ! 3],
                      [draws ! 4, draws ! 5, draws ! 6, draws ! 7],
                      [draws ! 8, draws ! 9, draws ! 10, draws ! 11],
                      [draws ! 12, draws ! 13, draws ! 14, draws ! 15]]"
    unfolding raw reshape44_explicit ..
  have clipb: "- a \<le> np_clip (draws ! k * (5 / 100)) (- (3 / 1000)) (3 / 1000)"
       "np_clip (draws ! k * (5 / 100)) (- (3 / 1000)) (3 / 1000) \<le> a"
    if "k < 16" for k
    using np_clip_bound [OF lo [OF that] hi [OF that]] by blast+
  have clipn: "- a \<le> np_clip (draws ! k / 20) (- (3 / 1000)) (3 / 1000)"
       "np_clip (draws ! k / 20) (- (3 / 1000)) (3 / 1000) \<le> a"
    if "k < 16" for k
    using clipb [OF that] by simp_all
  have clip0: "np_clip 0 (- (3 / 1000)) (3 / 1000) = 0"
    by (simp add: np_clip_def)
  have c1: "get_random_warpmat R lock_z perspective amount rng glob = (mat_add eye4 P, glob')"
    using get_random_warpmat_unfold [OF draw] by (simp add: P raw)
  have c2: "\<forall>i<4. \<forall>j<4. mat_add eye4 P ! i ! j = eye4 ! i ! j + P ! i ! j"
    unfolding Pex by (cases lock_z; cases perspective) (simp_all add: all_less_4 mat_add_def eye4_def)
  have c3: "\<forall>i<4. \<forall>j<4. - (amount * (1 / 10)) \<le> P ! i ! j \<and> P ! i ! j \<le> amount * (1 / 10)"
    unfolding Pex a_def [symmetric] using a0
    by (cases lock_z; cases perspective)
       (simp_all add: all_less_4 lo hi clipn clip0)
  have c4: "P ! 3 ! 3 = 0"
    unfolding Pex by simp
  have c5: "lock_z \<longrightarrow> (\<forall>j<4. P ! 0 ! j = 0 \<and> P ! j ! 0 = 0)"
    unfolding Pex by (cases perspective) (simp_all add: all_less_4 clip0)
  have c6: "\<not> perspective \<longrightarrow> (\<forall>j<4. P ! 3 ! j = 0)"
    unfolding Pex by (simp add: all_less_4)
  have c7: "perspective \<longrightarrow>
         (\<forall>j<3. P ! 3 ! j = np_clip ((if lock_z \<and> j = 0 then 0 else raw ! 3 ! j) * (5 / 100))
                                   (- (3 / 1000)) (3 / 1000))"
    unfolding Pex rawex by (simp add: all_less_3)
  have c8: "\<forall>i<3. \<forall>j<4. \<not> (lock_z \<and> (i = 0 \<or> j = 0)) \<longrightarrow> P ! i ! j = raw ! i ! j"
    unfolding Pex rawex by (simp add: all_less_3 all_less_4)
  from c1 c2 c3 c4 c5 c6 c7 c8 show ?thesis by blast
qed


lemma warpmat_const_tape:
  "fst (get_random_warpmat tape_ops False False 1 rng (const_tape c))
     = [[1 + (2 * c - 1) / 10, (2 * c - 1) / 10, (2 * c - 1) / 10, (2 * c - 1) / 10],
        [(2 * c - 1) / 10, 1 + (2 * c - 1) / 10, (2 * c - 1) / 10, (2 * c - 1) / 10],
        [(2 * c - 1) / 10, (2 * c - 1) / 10, 1 + (2 * c - 1) / 10, (2 * c - 1) / 10],
        [0, 0, 0, 1]]"
proof -
  have u: "uniform tape_ops (- (1 * (1 / 10))) (1 * (1 / 10)) 16 (const_tape c)
             = (replicate 16 ((2 * c - 1) / 10), tape_drop 16 (const_tape c))"
    by (simp add: tape_uniform_const algebra_simps)
  have r: "reshape44 (replicate 16 ((2 * c - 1) / 10))
             = [[(2 * c - 1) / 10, (2 * c - 1) / 10, (2 * c - 1) / 10, (2 * c - 1) / 10],
                [(2 * c - 1) / 10, (2 * c - 1) / 10, (2 * c - 1) / 10, (2 * c - 1) / 10],
                [(2 * c - 1) / 10, (2 * c - 1) / 10, (2 * c - 1) / 10, (2 * c - 1) / 10],
                [(2 * c - 1) / 10, (2 * c - 1) / 10, (2 * c - 1) / 10, (2 * c - 1) / 10]]"
    by (simp add: reshape44_explicit)
  show ?thesis
    unfolding get_random_warpmat_unfold [OF u] r warp_perturb_explicit np_clip_zero
    by (simp add: mat_add_eye4_explicit)
qed

text \<open>
  C4. \<^verbatim>\<open>get_random_warpmat\<close> takes a parameter \<^verbatim>\<open>rng\<close> and never
  reads it: what it returns is the same for every \<^verbatim>\<open>rng\<close>, and it changes
  with the state of numpy's global generator. With the same arguments and the same
  \<^verbatim>\<open>rng\<close>, two states of the global generator give two different matrices.
  (The other three samplers, \<^verbatim>\<open>get_random_flipmat\<close>,
  \<^verbatim>\<open>get_random_swapmat\<close> and \<^verbatim>\<open>get_random_rotmat\<close>, draw from
  \<^verbatim>\<open>rng\<close> only; their definitions above have no global state to read.)
\<close>

theorem get_random_warpmat_ignores_rng:
  "get_random_warpmat R lock_z perspective amount rng glob
     = get_random_warpmat R lock_z perspective amount rng' glob
   \<and> fst (get_random_warpmat tape_ops False False 1 (Some s) (const_tape 0))
       \<noteq> fst (get_random_warpmat tape_ops False False 1 (Some s) (const_tape (1/2)))"
proof
  show "get_random_warpmat R lock_z perspective amount rng glob
          = get_random_warpmat R lock_z perspective amount rng' glob"
    by (simp add: get_random_warpmat_def)
  show "fst (get_random_warpmat tape_ops False False 1 (Some s) (const_tape 0))
          \<noteq> fst (get_random_warpmat tape_ops False False 1 (Some s) (const_tape (1/2)))"
    unfolding warpmat_const_tape by simp
qed

theorem get_random_warpmat_ignores_rng_witness:
  "get_random_warpmat tape_ops False False 1 (Some (const_tape 0)) (const_tape 0)
     = get_random_warpmat tape_ops False False 1 (Some (const_tape (1/2))) (const_tape 0)
   \<and> fst (get_random_warpmat tape_ops False False 1 (Some (const_tape 0)) (const_tape 0))
       \<noteq> fst (get_random_warpmat tape_ops False False 1 (Some (const_tape 0)) (const_tape (1/2)))"
  by (rule get_random_warpmat_ignores_rng)

text \<open>
  C5, as the claim states it, fails: without \<^verbatim>\<open>perspective\<close> the last column of
  the perturbation is not zero. The entry \<open>[0, 3]\<close> of the result differs from the
  identity's.
\<close>

theorem get_random_warpmat_last_column_counterexample:
  "fst (get_random_warpmat tape_ops False False 1 None (const_tape (3/4))) ! 0 ! 3
     - eye4 ! 0 ! 3 \<noteq> 0"
  unfolding warpmat_const_tape by (simp add: eye4_def)

text \<open>The hypotheses of the theorem on the perturbation hold for the tape generator.\<close>

theorem get_random_warpmat_perturbation_witness:
  "uniform tape_ops (- (1 * (1 / 10))) (1 * (1 / 10)) 16 (const_tape (3/4))
     = (replicate 16 (1/20), tape_drop 16 (const_tape (3/4)))
   \<and> length (replicate 16 (1/20 :: real)) = 16
   \<and> set (replicate 16 (1/20 :: real)) \<subseteq> {- (1 * (1 / 10)) .. 1 * (1 / 10)}
   \<and> get_random_warpmat tape_ops False False 1 None (const_tape (3/4))
       = (mat_add eye4 (warp_perturb False False (reshape44 (replicate 16 (1/20)))),
          tape_drop 16 (const_tape (3/4)))
   \<and> warp_perturb False False (reshape44 (replicate 16 (1/20))) ! 0 ! 3 = 1/20
   \<and> warp_perturb False False (reshape44 (replicate 16 (1/20))) ! 3 ! 3 = 0
   \<and> warp_perturb False False (reshape44 (replicate 16 (1/20))) ! 3 ! 0 = 0"
proof -
  have h1: "uniform tape_ops (- (1 * (1 / 10))) (1 * (1 / 10)) 16 (const_tape (3/4))
              = (replicate 16 (1/20), tape_drop 16 (const_tape (3/4)))"
    by (simp add: tape_uniform_const)
  have h2: "length (replicate 16 (1/20 :: real)) = 16"
    by simp
  have h3: "\<forall>x\<in>set (replicate 16 (1/20 :: real)). - (1 * (1 / 10)) \<le> x \<and> x \<le> 1 * (1 / 10)"
    by simp
  have r: "reshape44 (replicate 16 (1/20 :: real)) ! 0 ! 3 = 1/20"
    by (simp add: reshape44_explicit)
  from get_random_warpmat_perturbation [OF h1 h2 h3 refl refl, of False False None] h1 h2 h3 r
  show ?thesis
    by (simp add: all_less_3 all_less_4)
qed

section \<open>The swap matrix in \<^verbatim>\<open>get_warped_slice\<close>\<close>

lemma and_then_InrE:
  assumes "and_then r f = Inr y"
  obtains x where "r = Inr x" and "f x = Inr y"
  using assms by (cases r) (simp_all add: and_then_def)

lemma patch_shapes_3d_example: "patch_shapes_3d [2, 2, 2] None None = Inr ([2, 2, 2], None)"
  by (simp add: patch_shapes_3d_def)

lemma position_range_example: "position_range (digits_volume [2, 4, 4, 4]) [2, 2, 2] None None = Inr ([1, 1, 1], [3, 3, 3])"
  by (simp add: position_range_def digits_volume_def and_then_def)

lemma swap_or_eye_no_x_flip: "swap_or_eye R True lock_z s = Inr (eye4, s)"
  by (simp add: swap_or_eye_def)

lemma dest_scale_example: "dest_scale True 2 = Inr (scale (1/2) 1 1)"
  by (simp add: dest_scale_def)

lemma shape_digits_volume: "shape (digits_volume sh) = sh"
  by (simp add: digits_volume_def)

lemma warp_matrices_example: "\<exists>m r. warp_matrices tape_ops (digits_volume [2, 4, 4, 4]) [2, 2, 2] 2 True 0 True True False
     None None None (const_tape 0) = Inr (m, r)"
  by (simp add: warp_matrices_def patch_shapes_3d_example position_range_example swap_or_eye_no_x_flip dest_scale_example and_then_def split_beta shape_digits_volume Let_def)


lemma dot_eye4_right: "dot (dot A B) eye4 = dot A B"
  by (simp add: dot_def eye4_def)

lemma chain_skip_eye4:
  "chain_matrices [A, B, C, D, E, eye4, F, G] = chain_matrices [A, B, C, D, E, F, G]"
  by (simp only: chain_matrices_def foldl.simps dot_eye4_right)

lemma warp_matrices_shape:
  assumes "warp_matrices R inp_src ps aniso_factor sample_aniso warp_amount lock_z no_x_flip perspective
             target_src target_ps rng glob = Inr (mats, rest)"
  shows "\<exists>A B C D E S F G s s'. mats = [A, B, C, D, E, S, F, G] \<and> swap_or_eye R no_x_flip lock_z s = Inr (S, s')"
  using assms
  apply (simp only: warp_matrices_def Let_def)
  apply (erule and_then_InrE)
  apply (simp only: split_beta)
  apply (split if_split_asm)
   apply (simp only: sum.distinct)
  apply (erule and_then_InrE)
  apply (simp only: split_beta)
  apply (erule and_then_InrE)
  apply (simp only: split_beta)
  apply (erule and_then_InrE)
  apply (simp only: sum.inject prod.inject)
  apply (metis prod.collapse)
  done

text \<open>
  C10. With \<^verbatim>\<open>no_x_flip\<close> set, \<^verbatim>\<open>get_warped_slice\<close> does not sample
  a swap matrix: \<^verbatim>\<open>S\<close> is the identity and the generator is left as it was.
  Whenever the eight matrices are built, the sixth of them is the identity, and chaining
  them gives what chaining the other seven gives: no axis permutation is part of the
  composed transform, whatever \<^verbatim>\<open>lock_z\<close> is.
\<close>

theorem get_warped_slice_no_x_flip_no_swap:
  assumes "warp_matrices R inp_src ps aniso_factor sample_aniso warp_amount lock_z True perspective
             target_src target_ps rng glob = Inr (mats, rest)"
  shows "swap_or_eye R True lock_z s = Inr (eye4, s)
       \<and> (\<exists>T_dest S_dest Rm W F S_src T_src.
             mats = [T_dest, S_dest, Rm, W, F, eye4, S_src, T_src]
           \<and> chain_matrices mats = chain_matrices [T_dest, S_dest, Rm, W, F, S_src, T_src])"
proof
  show "swap_or_eye R True lock_z s = Inr (eye4, s)"
    by (simp add: swap_or_eye_def)
  from warp_matrices_shape [OF assms]
  obtain A B C D E S F G s1 s2 where m: "mats = [A, B, C, D, E, S, F, G]"
    and sw: "swap_or_eye R True lock_z s1 = Inr (S, s2)"
    by blast
  from sw have "S = eye4" by (simp add: swap_or_eye_def)
  with m show "\<exists>T_dest S_dest Rm W F S_src T_src.
             mats = [T_dest, S_dest, Rm, W, F, eye4, S_src, T_src]
           \<and> chain_matrices mats = chain_matrices [T_dest, S_dest, Rm, W, F, S_src, T_src]"
    by (simp add: chain_skip_eye4)
qed

theorem get_warped_slice_no_x_flip_no_swap_witness:
  "case warp_matrices tape_ops (digits_volume [2, 4, 4, 4]) [2, 2, 2] 2 True 0 True True False
          None None None (const_tape 0) of
     Inl e \<Rightarrow> False
   | Inr (mats, rest) \<Rightarrow> mats ! 5 = eye4 \<and> length mats = 8"
proof -
  from warp_matrices_example obtain m r where
    h: "warp_matrices tape_ops (digits_volume [2, 4, 4, 4]) [2, 2, 2] 2 True 0 True True False
          None None None (const_tape 0) = Inr (m, r)"
    by blast
  from get_warped_slice_no_x_flip_no_swap [OF h, where s = "const_tape 0"]
  obtain A B C D E F G where "m = [A, B, C, D, E, eye4, F, G]"
    by blast
  with h show ?thesis
    by simp
qed

section \<open>Arrays filled by \<open>tabulate\<close>, and the inverse of a matrix\<close>

lemma tabulate_Inr:
  assumes "tabulate sh idxs f = Inr a"
  shows "shape a = sh" and "\<And>i. i \<in> set idxs \<Longrightarrow> f i = Inr (item a i)"
proof -
  from assms have none: "find (\<lambda>i. isl (f i)) idxs = None"
    and a: "a = \<lparr> shape = sh, item = (\<lambda>i. projr (f i)) \<rparr>"
    by (auto simp: tabulate_def split: option.splits)
  show "shape a = sh" by (simp add: a)
  fix i assume "i \<in> set idxs"
  with none have "\<not> isl (f i)" by (auto simp: find_None_iff)
  then show "f i = Inr (item a i)" by (cases "f i") (simp_all add: a)
qed


lemma tabulate_total:
  assumes "\<And>i. i \<in> set idxs \<Longrightarrow> \<exists>v. f i = Inr v"
  shows "\<exists>a. tabulate sh idxs f = Inr a"
proof -
  have "find (\<lambda>i. isl (f i)) idxs = None"
    using assms by (fastforce simp: find_None_iff)
  then show ?thesis by (simp add: tabulate_def)
qed

lemma voxels_iff: "v \<in> set (voxels (d, h, w)) \<longleftrightarrow> (\<exists>z y x. v = [z, y, x] \<and> z < d \<and> y < h \<and> x < w)"
  by (fastforce simp: voxels_def image_iff)

lemma channel_voxels_iff:
  "idx \<in> set (channel_voxels n (d, h, w))
     \<longleftrightarrow> (\<exists>k z y x. idx = [k, z, y, x] \<and> k < n \<and> z < d \<and> y < h \<and> x < w)"
  by (fastforce simp: channel_voxels_def voxels_def image_iff)

lemma det_3:
  "det [[a, b, c], [d, e, f], [g, h, i]]
     = a * (e * i - f * h) - b * (d * i - f * g) + c * (d * h - e * g)"
  by (simp add: del_nth_def algebra_simps)

lemma det_4:
  "det [[a0, a1, a2, a3], [b0, b1, b2, b3], [c0, c1, c2, c3], [d0, d1, d2, d3]]
     = a0 * det [[b1, b2, b3], [c1, c2, c3], [d1, d2, d3]]
     - a1 * det [[b0, b2, b3], [c0, c2, c3], [d0, d2, d3]]
     + a2 * det [[b0, b1, b3], [c0, c1, c3], [d0, d1, d3]]
     - a3 * det [[b0, b1, b2], [c0, c1, c2], [d0, d1, d2]]"
  by (simp add: del_nth_def numeral_3_eq_3 del: det.simps(2) add: det.simps(2) [of "[a0, a1, a2, a3]"])

lemma adjugate_4:
  "adjugate [[a0, a1, a2, a3], [b0, b1, b2, b3], [c0, c1, c2, c3], [d0, d1, d2, d3]]
     = [[  det [[b1, b2, b3], [c1, c2, c3], [d1, d2, d3]],
         - det [[a1, a2, a3], [c1, c2, c3], [d1, d2, d3]],
           det [[a1, a2, a3], [b1, b2, b3], [d1, d2, d3]],
         - det [[a1, a2, a3], [b1, b2, b3], [c1, c2, c3]]],
        [- det [[b0, b2, b3], [c0, c2, c3], [d0, d2, d3]],
           det [[a0, a2, a3], [c0, c2, c3], [d0, d2, d3]],
         - det [[a0, a2, a3], [b0, b2, b3], [d0, d2, d3]],
           det [[a0, a2, a3], [b0, b2, b3], [c0, c2, c3]]],
        [  det [[b0, b1, b3], [c0, c1, c3], [d0, d1, d3]],
         - det [[a0, a1, a3], [c0, c1, c3], [d0, d1, d3]],
           det [[a0, a1, a3], [b0, b1, b3], [d0, d1, d3]],
         - det [[a0, a1, a3], [b0, b1, b3], [c0, c1, c3]]],
        [- det [[b0, b1, b2], [c0, c1, c2], [d0, d1, d2]],
           det [[a0, a1, a2], [c0, c1, c2], [d0, d1, d2]],
         - det [[a0, a1, a2], [b0, b1, b2], [d0, d1, d2]],
           det [[a0, a1, a2], [b0, b1, b2], [c0, c1, c2]]]]"
  by (simp add: adjugate_def minor_def del_nth_def numeral_3_eq_3 numeral_2_eq_2 del: det.simps)

lemma linalg_inv_translate:
  "linalg_inv (translate a b c) = Inr (translate (- a) (- b) (- c))"
  unfolding linalg_inv_def translate_def adjugate_4 det_4 det_3 by simp



lemma make_dest_corners_explicit:
  "make_dest_corners (D, H, W) =
     [[0, 0, 0, 1], [0, 0, of_int (int W - 1), 1], [0, of_int (int H - 1), 0, 1],
      [0, of_int (int H - 1), of_int (int W - 1), 1],
      [of_int (int D - 1), 0, 0, 1], [of_int (int D - 1), 0, of_int (int W - 1), 1],
      [of_int (int D - 1), of_int (int H - 1), 0, 1],
      [of_int (int D - 1), of_int (int H - 1), of_int (int W - 1), 1]]"
  by (simp add: make_dest_corners_def)

lemma needs_divide_translate: "needs_divide (translate a b c) = False"
  by (simp add: needs_divide_def translate_def)

lemma to_source_translate:
  "to_source (translate a b c) (translate (- a) (- b) (- c)) [z, y, x, 1] = Inr [z - a, y - b, x - c]"
  by (simp add: to_source_def needs_divide_translate) (simp add: matvec_def translate_def)

lemma floor_ceiling_shift:
  "\<lfloor>of_int m - (of_int t :: real)\<rfloor> = m - t"
  "\<lceil>of_int m - (of_int t :: real) + 1\<rceil> = m - t + 1"
  "\<lfloor>0 - (of_int t :: real)\<rfloor> = - t"
  "\<lceil>0 - (of_int t :: real) + 1\<rceil> = - t + 1"
  "\<lceil>- (of_int t :: real)\<rceil> = - t"
  "\<lfloor>- (of_int t :: real)\<rfloor> = - t"
  by linarith+

lemma bounding_box_translate:
  assumes "0 < D" "0 < H" "0 < W"
  shows "bounding_box (translate (of_int a) (of_int b) (of_int c))
           (translate (- of_int a) (- of_int b) (- of_int c)) (D, H, W)
         = Inr ([- a, - b, - c], [int D - a, int H - b, int W - c])"
  unfolding bounding_box_def make_dest_corners_explicit list.map to_source_translate
  using assms
  by (simp add: and_then_def list_min_def list_max_def floor_ceiling_shift max_def min_def)


lemma wrap_index_nat: "i < n \<Longrightarrow> wrap_index n (int i) = Some i"
  by (simp add: wrap_index_def)

lemma read3_in_range:
  "shape src = [a, b, c] \<Longrightarrow> z < a \<Longrightarrow> y < b \<Longrightarrow> x < c
   \<Longrightarrow> read3 src (int z) (int y) (int x) = Inr (item src [z, y, x])"
  by (simp add: read3_def wrap_index_nat)

lemma np_int32_nat: "np_int32 (real z) = int z"
  by (simp add: np_int32_def)

lemma np_round_nat: "np_round (real z) = int z"
  by (simp add: np_round_def)

lemma read3_int:
  "shape src = [a, b, c] \<Longrightarrow> 0 \<le> i \<Longrightarrow> i < int a \<Longrightarrow> 0 \<le> j \<Longrightarrow> j < int b
   \<Longrightarrow> 0 \<le> k \<Longrightarrow> k < int c
   \<Longrightarrow> read3 src i j k = Inr (item src [nat i, nat j, nat k])"
  by (simp add: read3_def wrap_index_def)

lemma linear_at_grid:
  assumes "shape src = [a, b, c]" "Suc z < a" "Suc y < b" "Suc x < c"
    and "coords ! 0 - lo ! 0 = real z" "coords ! 1 - lo ! 1 = real y" "coords ! 2 - lo ! 2 = real x"
  shows "map_coordinates_linear src coords lo = Inr (item src [z, y, x])"
  unfolding map_coordinates_linear_def Let_def assms(5-7) np_int32_nat
  using assms(2-4) by (simp add: read3_int [OF assms(1)] and_then_def)

lemma nearest_at_grid:
  assumes "shape src = [a, b, c]" "z < a" "y < b" "x < c"
    and "coords ! 0 - lo ! 0 = real z" "coords ! 1 - lo ! 1 = real y" "coords ! 2 - lo ! 2 = real x"
  shows "map_coordinates_nearest src coords lo = Inr (item src [z, y, x])"
  unfolding map_coordinates_nearest_def Let_def assms(5-7) np_round_nat
  using read3_in_range [OF assms(1-4)] .


lemma tabulate_all:
  assumes "\<And>i. i \<in> set idxs \<Longrightarrow> f i = Inr (g i)"
  shows "\<exists>a. tabulate sh idxs f = Inr a \<and> shape a = sh \<and> (\<forall>i\<in>set idxs. item a i = g i)"
proof -
  from tabulate_total [of idxs f sh] assms obtain a where a: "tabulate sh idxs f = Inr a"
    by blast
  from tabulate_Inr [OF a] assms have "shape a = sh" "\<forall>i\<in>set idxs. item a i = g i"
    by auto
  with a show ?thesis by blast
qed

lemma source_coords_translate:
  "\<exists>sc. source_coords (translate (of_int a) (of_int b) (of_int c))
            (translate (- of_int a) (- of_int b) (- of_int c)) (D, H, W) = Inr sc
      \<and> shape sc = [D, H, W]
      \<and> (\<forall>z y x. z < D \<and> y < H \<and> x < W \<longrightarrow>
            item sc [z, y, x] = [real z - of_int a, real y - of_int b, real x - of_int c])"
proof -
  let ?f = "\<lambda>v. to_source (translate (of_int a) (of_int b) (of_int c))
                   (translate (- of_int a) (- of_int b) (- of_int c))
                   (item (make_dest_coords (D, H, W)) v)"
  let ?g = "\<lambda>v. [real (v ! 0) - of_int a, real (v ! 1) - of_int b, real (v ! 2) - of_int c]"
  have "?f v = Inr (?g v)" if "v \<in> set (voxels (D, H, W))" for v
    by (simp add: make_dest_coords_def to_source_translate)
  from tabulate_all [of "voxels (D, H, W)" ?f ?g "[D, H, W]", OF this]
  obtain sc where sc: "tabulate [D, H, W] (voxels (D, H, W)) ?f = Inr sc"
    and sh: "shape sc = [D, H, W]"
    and it: "\<forall>i\<in>set (voxels (D, H, W)). item sc i = ?g i"
    by blast
  have "item sc [z, y, x] = [real z - of_int a, real y - of_int b, real x - of_int c]"
    if "z < D" "y < H" "x < W" for z y x
  proof -
    from that have "[z, y, x] \<in> set (voxels (D, H, W))" by (simp add: voxels_iff)
    with it show ?thesis by fastforce
  qed
  with sc sh show ?thesis
    unfolding source_coords_def dims_def prod.case by blast
qed

lemma cut_channel_shape:
  "shape (channel (cut cast src [l0, l1, l2] [h0, h1, h2]) k)
     = [nat (h0 + 1 - l0), nat (h1 + 1 - l1), nat (h2 + 1 - l2)]"
  by (simp add: channel_def cut_def)

lemma cut_channel_item:
  "item (channel (cut cast src [l0, l1, l2] hi) k) [z, y, x]
     = cast (item src [k, nat l0 + z, nat l1 + y, nat l2 + x])"
  by (simp add: channel_def cut_def)

lemma input_resample_translate:
  assumes sc: "\<forall>z y x. z < D \<and> y < H \<and> x < W \<longrightarrow>
            item sc [z, y, x] = [real z - of_int a, real y - of_int b, real x - of_int c]"
    and nomax: "\<not> (1/2 < ksize \<and> last_ch_max_interp)"
  shows "\<exists>out. input_resample cast inp_src n (D, H, W) sc [- a, - b, - c]
                 [int D - a, int H - b, int W - c] last_ch_max_interp ksize = Inr out
      \<and> shape out = [n, D, H, W]
      \<and> (\<forall>k z y x. k < n \<and> z < D \<and> y < H \<and> x < W \<longrightarrow>
            item out [k, z, y, x]
              = cast (item inp_src [k, nat (- a) + z, nat (- b) + y, nat (- c) + x]))"
proof -
  let ?cut = "cut cast inp_src [- a, - b, - c] [int D - a, int H - b, int W - c]"
  let ?lo = "map of_int [- a, - b, - c] :: real list"
  let ?f = "\<lambda>idx. if use_max_kernel ksize last_ch_max_interp (hd idx) n
                  then map_coordinates_max_kernel (channel ?cut (hd idx)) (item sc (tl idx)) ?lo ksize
                  else map_coordinates_linear (channel ?cut (hd idx)) (item sc (tl idx)) ?lo"
  let ?g = "\<lambda>idx. cast (item inp_src [idx ! 0, nat (- a) + idx ! 1, nat (- b) + idx ! 2,
                                       nat (- c) + idx ! 3])"
  have nm: "use_max_kernel ksize last_ch_max_interp k n = False" for k
    using nomax by (auto simp: use_max_kernel_def)
  have "?f idx = Inr (?g idx)" if "idx \<in> set (channel_voxels n (D, H, W))" for idx
  proof -
    from that obtain k z y x where idx: "idx = [k, z, y, x]"
      and r: "k < n" "z < D" "y < H" "x < W"
      by (auto simp: channel_voxels_iff)
    have shp: "shape (channel ?cut k) = [Suc D, Suc H, Suc W]"
      by (simp add: cut_channel_shape nat_add_distrib)
    have "map_coordinates_linear (channel ?cut k) (item sc [z, y, x]) ?lo
            = Inr (item (channel ?cut k) [z, y, x])"
      by (rule linear_at_grid [OF shp]) (use r sc in simp_all)
    then show ?thesis
      by (simp add: idx nm cut_channel_item)
  qed
  from tabulate_all [of "channel_voxels n (D, H, W)" ?f ?g "[n, D, H, W]", OF this]
  obtain out where out: "tabulate [n, D, H, W] (channel_voxels n (D, H, W)) ?f = Inr out"
    and sh: "shape out = [n, D, H, W]"
    and it: "\<forall>i\<in>set (channel_voxels n (D, H, W)). item out i = ?g i"
    by blast
  have "item out [k, z, y, x] = cast (item inp_src [k, nat (- a) + z, nat (- b) + y, nat (- c) + x])"
    if "k < n" "z < D" "y < H" "x < W" for k z y x
  proof -
    from that have "[k, z, y, x] \<in> set (channel_voxels n (D, H, W))"
      by (simp add: channel_voxels_iff)
    with it show ?thesis by fastforce
  qed
  with out sh show ?thesis
    unfolding input_resample_def dims_def prod.case Let_def by blast
qed

section \<open>\<^verbatim>\<open>warp_slice\<close> under a translation by whole voxels\<close>

lemma exceeds_explicit:
  "exceeds [l0, l1, l2] [h0, h1, h2] [s0, s1, s2]
     \<longleftrightarrow> l0 < 0 \<or> l1 < 0 \<or> l2 < 0 \<or> int s0 \<le> h0 \<or> int s1 \<le> h1 \<or> int s2 \<le> h2"
  by (auto simp: exceeds_def)

lemma inp_dims_4: "shape inp_src = [n, sd, sh, sw] \<Longrightarrow> inp_dims inp_src = Inr (n, [sd, sh, sw])"
  by (simp add: inp_dims_def)

lemma warp_input_translate_oob:
  assumes "shape inp_src = [n, sd, sh, sw]" "0 < D" "0 < H" "0 < W"
    and "\<not> (a \<le> 0 \<and> b \<le> 0 \<and> c \<le> 0 \<and> int D - a < int sd \<and> int H - b < int sh \<and> int W - c < int sw)"
  shows "warp_input cast inp_src (D, H, W) (translate (of_int a) (of_int b) (of_int c))
           last_ch_max_interp ksize = Inl (WarpingOOBError ''Out of bounds'')"
  using assms(5)
  by (auto simp: warp_input_def inp_dims_4 [OF assms(1)] linalg_inv_translate and_then_def
        bounding_box_translate [OF assms(2-4)] exceeds_explicit)

lemma warp_input_translate_ok:
  assumes "shape inp_src = [n, sd, sh, sw]" "0 < D" "0 < H" "0 < W"
    and "a \<le> 0" "b \<le> 0" "c \<le> 0" "int D - a < int sd" "int H - b < int sh" "int W - c < int sw"
    and nomax: "\<not> (1/2 < ksize \<and> last_ch_max_interp)"
  shows "\<exists>out sc. warp_input cast inp_src (D, H, W) (translate (of_int a) (of_int b) (of_int c))
           last_ch_max_interp ksize = Inr (out, sc, [sd, sh, sw])
      \<and> shape out = [n, D, H, W]
      \<and> (\<forall>k z y x. k < n \<and> z < D \<and> y < H \<and> x < W \<longrightarrow>
            item out [k, z, y, x]
              = cast (item inp_src [k, nat (- a) + z, nat (- b) + y, nat (- c) + x]))
      \<and> (\<forall>z y x. z < D \<and> y < H \<and> x < W \<longrightarrow>
            item sc [z, y, x] = [real z - of_int a, real y - of_int b, real x - of_int c])"
proof -
  from source_coords_translate [of a b c D H W] obtain sc where
    sc: "source_coords (translate (of_int a) (of_int b) (of_int c))
            (translate (- of_int a) (- of_int b) (- of_int c)) (D, H, W) = Inr sc"
    and it: "\<forall>z y x. z < D \<and> y < H \<and> x < W \<longrightarrow>
            item sc [z, y, x] = [real z - of_int a, real y - of_int b, real x - of_int c]"
    by blast
  from input_resample_translate [OF it nomax, of cast inp_src n] obtain out where
    out: "input_resample cast inp_src n (D, H, W) sc [- a, - b, - c]
                 [int D - a, int H - b, int W - c] last_ch_max_interp ksize = Inr out"
    and sh: "shape out = [n, D, H, W]"
    and oit: "\<forall>k z y x. k < n \<and> z < D \<and> y < H \<and> x < W \<longrightarrow>
            item out [k, z, y, x]
              = cast (item inp_src [k, nat (- a) + z, nat (- b) + y, nat (- c) + x])"
    by blast
  have "warp_input cast inp_src (D, H, W) (translate (of_int a) (of_int b) (of_int c))
           last_ch_max_interp ksize = Inr (out, sc, [sd, sh, sw])"
    using assms(5-10)
    by (simp add: warp_input_def inp_dims_4 [OF assms(1)] linalg_inv_translate and_then_def
          bounding_box_translate [OF assms(2-4)] exceeds_explicit sc out)
  with sh oit it show ?thesis by blast
qed

lemma list_min_Min: "xs \<noteq> [] \<Longrightarrow> list_min xs = Min (set xs)"
  by (cases xs) (simp_all add: list_min_def Min.set_eq_fold [symmetric])

lemma list_max_Max: "xs \<noteq> [] \<Longrightarrow> list_max xs = Max (set xs)"
  by (cases xs) (simp_all add: list_max_def Max.set_eq_fold [symmetric])

lemma voxels_nonempty: "0 < D \<Longrightarrow> 0 < H \<Longrightarrow> 0 < W \<Longrightarrow> voxels (D, H, W) \<noteq> []"
proof -
  assume "0 < D" "0 < H" "0 < W"
  then have "[0, 0, 0] \<in> set (voxels (D, H, W))" by (simp add: voxels_iff)
  then show ?thesis by auto
qed

lemma grid_min:
  assumes "0 < D" "0 < H" "0 < W" "i < 3"
  shows "list_min (map (\<lambda>v. real (v ! i) + t) (voxels (D, H, W))) = t"
proof -
  let ?S = "set (map (\<lambda>v. real (v ! i) + t) (voxels (D, H, W)))"
  have ne: "map (\<lambda>v. real (v ! i) + t) (voxels (D, H, W)) \<noteq> []"
    using voxels_nonempty [OF assms(1-3)] by simp
  have "[0, 0, 0] \<in> set (voxels (D, H, W))" using assms by (simp add: voxels_iff)
  then have "real ([0, 0, 0] ! i) + t \<in> ?S" by (simp only: set_map image_eqI)
  moreover have "[0, 0, 0] ! i = (0::nat)" using assms(4) by (simp add: nth_Cons')
  ultimately have mem: "t \<in> ?S" by simp
  have "Min ?S = t"
    by (rule Min_eqI) (use mem in auto)
  with list_min_Min [OF ne] show ?thesis by simp
qed

lemma grid_max:
  assumes "0 < D" "0 < H" "0 < W" "i < 3"
  shows "list_max (map (\<lambda>v. real (v ! i) + t) (voxels (D, H, W))) = real ([D, H, W] ! i - 1) + t"
proof -
  let ?S = "set (map (\<lambda>v. real (v ! i) + t) (voxels (D, H, W)))"
  have ne: "map (\<lambda>v. real (v ! i) + t) (voxels (D, H, W)) \<noteq> []"
    using voxels_nonempty [OF assms(1-3)] by simp
  have "[D - 1, H - 1, W - 1] \<in> set (voxels (D, H, W))" using assms by (simp add: voxels_iff)
  then have "real ([D - 1, H - 1, W - 1] ! i) + t \<in> ?S" by (simp only: set_map image_eqI)
  moreover have "[D - 1, H - 1, W - 1] ! i = [D, H, W] ! i - 1"
    using assms(4) by (auto simp: nth_Cons' less_Suc_eq numeral_3_eq_3)
  ultimately have mem: "real ([D, H, W] ! i - 1) + t \<in> ?S" by simp
  have le: "y \<le> real ([D, H, W] ! i - 1) + t" if "y \<in> ?S" for y
  proof -
    from that obtain z y' x where y: "y = real ([z, y', x] ! i) + t" and r: "z < D" "y' < H" "x < W"
      by (auto simp: voxels_iff)
    have "[z, y', x] ! i \<le> [D, H, W] ! i - 1"
      using assms(4) r by (auto simp: nth_Cons' less_Suc_eq numeral_3_eq_3)
    with y show ?thesis by simp
  qed
  have "Max ?S = real ([D, H, W] ! i - 1) + t"
    by (rule Max_eqI) (use mem le in auto)
  with list_max_Max [OF ne] show ?thesis by simp
qed


lemma target_coords_translate:
  assumes "0 < D" "0 < H" "0 < W"
    and sc: "\<forall>z y x. z < D \<and> y < H \<and> x < W \<longrightarrow>
            item sc [z, y, x] = [real z - of_int a, real y - of_int b, real x - of_int c]"
  shows "\<exists>tc. target_coords [sd, sh, sw] (D, H, W) sc [sd, sh, sw] (D, H, W)
                = Inr (tc, [- a, - b, - c], [int D - a, int H - b, int W - c], [0, 0, 0])
      \<and> (\<forall>z y x. z < D \<and> y < H \<and> x < W \<longrightarrow>
            item tc [z, y, x] = [real z - of_int a, real y - of_int b, real x - of_int c])"
proof -
  let ?tc = "\<lparr> shape = [D, H, W],
               item = (\<lambda>idx. item sc (map2 (\<lambda>a i. nat a + i) [0, 0, 0] idx)) \<rparr>"
  have it: "item ?tc [z, y, x] = [real z - of_int a, real y - of_int b, real x - of_int c]"
    if "z < D" "y < H" "x < W" for z y x
    using that sc by simp
  have col: "map (\<lambda>c. c ! i) (map (item ?tc) (voxels (D, H, W)))
               = map (\<lambda>v. real (v ! i) + (- of_int ([a, b, c] ! i))) (voxels (D, H, W))"
    if "i < 3" for i
  proof -
    have "item ?tc v ! i = real (v ! i) + (- of_int ([a, b, c] ! i))"
      if "v \<in> set (voxels (D, H, W))" for v
    proof -
      from that obtain z y x where v: "v = [z, y, x]" and r: "z < D" "y < H" "x < W"
        by (auto simp: voxels_iff)
      show ?thesis unfolding v it [OF r] using \<open>i < 3\<close>
        by (auto simp: nth_Cons' less_Suc_eq numeral_3_eq_3)
    qed
    then show ?thesis by simp
  qed
  define cs where "cs = map (item ?tc) (voxels (D, H, W))"
  have mn: "list_min (map (\<lambda>c. c ! i) cs) = - of_int ([a, b, c] ! i)"
    and mx: "list_max (map (\<lambda>c. c ! i) cs)
               = real ([D, H, W] ! i - 1) + (- of_int ([a, b, c] ! i))"
    if "i < 3" for i
    unfolding cs_def col [OF that]
    by (rule grid_min [OF assms(1-3) that], rule grid_max [OF assms(1-3) that])
  have ne: "cs \<noteq> []"
    using voxels_nonempty [OF assms(1-3)] by (simp add: cs_def)
  have lo: "\<lfloor>list_min (map (\<lambda>c. c ! 0) cs) - of_int 0\<rfloor> = - a"
           "\<lfloor>list_min (map (\<lambda>c. c ! 1) cs) - of_int 0\<rfloor> = - b"
           "\<lfloor>list_min (map (\<lambda>c. c ! 2) cs) - of_int 0\<rfloor> = - c"
    using mn [of 0] mn [of 1] mn [of 2] by simp_all
  have hi: "\<lceil>list_max (map (\<lambda>c. c ! 0) cs) - of_int 0 + 1\<rceil> = int D - a"
           "\<lceil>list_max (map (\<lambda>c. c ! 1) cs) - of_int 0 + 1\<rceil> = int H - b"
           "\<lceil>list_max (map (\<lambda>c. c ! 2) cs) - of_int 0 + 1\<rceil> = int W - c"
    using mx [of 0] mx [of 1] mx [of 2] assms(1-3) by (simp_all add: of_nat_diff)
  have off: "map2 (\<lambda>s t. int s - int t) [sd, sh, sw] [sd, sh, sw] = [0, 0, 0]"
       "map2 (\<lambda>p t. int p - int t) [D, H, W] [D, H, W] = [0, 0, 0]"
    by simp_all
  have ev: "list_ex (\<lambda>x. x mod 2 \<noteq> 0) [0, 0, 0 :: int] = False"
       "map (\<lambda>x. x div 2) [0, 0, 0 :: int] = [0, 0, 0]"
       "list_ex (\<lambda>x. x < 0) [0, 0, 0 :: int] = False"
    by simp_all
  have nth0: "[0, 0, 0 :: int] ! 0 = 0" "[0, 0, 0 :: int] ! 1 = 0" "[0, 0, 0 :: int] ! 2 = 0"
    by simp_all
  have "target_coords [sd, sh, sw] (D, H, W) sc [sd, sh, sw] (D, H, W)
          = Inr (?tc, [- a, - b, - c], [int D - a, int H - b, int W - c], [0, 0, 0])"
    unfolding target_coords_def dims_def prod.case Let_def off ev if_False cs_def [symmetric]
    by (simp only: ne if_False list.map nth0 lo hi)
  with it show ?thesis by blast
qed

lemma target_resample_translate:
  assumes t: "shape target_src = [ct, sd, sh, sw]"
    and tc: "\<forall>z y x. z < D \<and> y < H \<and> x < W \<longrightarrow>
            item tc [z, y, x] = [real z - of_int a, real y - of_int b, real x - of_int c]"
  shows "\<exists>t0. target_resample cast target_src (D, H, W) tc [- a, - b, - c]
                 [int D - a, int H - b, int W - c] [0, 0, 0] target_discrete_ix = Inr t0
      \<and> shape t0 = [ct, D, H, W]
      \<and> (\<forall>k z y x. k < ct \<and> z < D \<and> y < H \<and> x < W \<longrightarrow>
            item t0 [k, z, y, x]
              = cast (item target_src [k, nat (- a) + z, nat (- b) + y, nat (- c) + x]))"
proof -
  let ?cut = "cut cast target_src [- a, - b, - c] [int D - a, int H - b, int W - c]"
  let ?lo = "map2 (\<lambda>l a. of_int (l + a)) [- a, - b, - c] [0, 0, 0] :: real list"
  let ?flags = "discrete_flags target_discrete_ix ct"
  let ?f = "\<lambda>idx. if ?flags ! hd idx
                  then map_coordinates_nearest (channel ?cut (hd idx)) (item tc (tl idx)) ?lo
                  else map_coordinates_linear (channel ?cut (hd idx)) (item tc (tl idx)) ?lo"
  let ?g = "\<lambda>idx. cast (item target_src [idx ! 0, nat (- a) + idx ! 1, nat (- b) + idx ! 2,
                                          nat (- c) + idx ! 3])"
  have "?f idx = Inr (?g idx)" if "idx \<in> set (channel_voxels ct (D, H, W))" for idx
  proof -
    from that obtain k z y x where idx: "idx = [k, z, y, x]"
      and r: "k < ct" "z < D" "y < H" "x < W"
      by (auto simp: channel_voxels_iff)
    have shp: "shape (channel ?cut k) = [Suc D, Suc H, Suc W]"
      by (simp add: cut_channel_shape nat_add_distrib)
    have l: "map_coordinates_linear (channel ?cut k) (item tc [z, y, x]) ?lo
            = Inr (item (channel ?cut k) [z, y, x])"
      by (rule linear_at_grid [OF shp]) (use r tc in simp_all)
    have n: "map_coordinates_nearest (channel ?cut k) (item tc [z, y, x]) ?lo
            = Inr (item (channel ?cut k) [z, y, x])"
      by (rule nearest_at_grid [OF shp]) (use r tc in simp_all)
    show ?thesis
      unfolding idx list.sel l n by (simp add: cut_channel_item)
  qed
  from tabulate_all [of "channel_voxels ct (D, H, W)" ?f ?g "[ct, D, H, W]", OF this]
  obtain t0 where t0: "tabulate [ct, D, H, W] (channel_voxels ct (D, H, W)) ?f = Inr t0"
    and sh: "shape t0 = [ct, D, H, W]"
    and it: "\<forall>i\<in>set (channel_voxels ct (D, H, W)). item t0 i = ?g i"
    by blast
  have "item t0 [k, z, y, x]
          = cast (item target_src [k, nat (- a) + z, nat (- b) + y, nat (- c) + x])"
    if "k < ct" "z < D" "y < H" "x < W" for k z y x
  proof -
    from that have "[k, z, y, x] \<in> set (channel_voxels ct (D, H, W))"
      by (simp add: channel_voxels_iff)
    with it show ?thesis by fastforce
  qed
  with t0 sh show ?thesis
    unfolding target_resample_def dims_def prod.case Let_def t list.sel by blast
qed

lemma warp_target_translate:
  assumes "0 < D" "0 < H" "0 < W"
    and "a \<le> 0" "b \<le> 0" "c \<le> 0" "int D - a < int sd" "int H - b < int sh" "int W - c < int sw"
    and t: "shape target_src = [ct, sd, sh, sw]"
    and sc: "\<forall>z y x. z < D \<and> y < H \<and> x < W \<longrightarrow>
            item sc [z, y, x] = [real z - of_int a, real y - of_int b, real x - of_int c]"
  shows "\<exists>t0. (\<forall>vec. warp_target cast M [sd, sh, sw] (D, H, W) sc target_src (Some (D, H, W)) vec
                       target_discrete_ix = target_reproject M t0 vec)
      \<and> shape t0 = [ct, D, H, W]
      \<and> (\<forall>k z y x. k < ct \<and> z < D \<and> y < H \<and> x < W \<longrightarrow>
            item t0 [k, z, y, x]
              = cast (item target_src [k, nat (- a) + z, nat (- b) + y, nat (- c) + x]))"
proof -
  from target_coords_translate [OF assms(1-3) sc, of sd sh sw] obtain tc where
    tc: "target_coords [sd, sh, sw] (D, H, W) sc [sd, sh, sw] (D, H, W)
           = Inr (tc, [- a, - b, - c], [int D - a, int H - b, int W - c], [0, 0, 0])"
    and it: "\<forall>z y x. z < D \<and> y < H \<and> x < W \<longrightarrow>
            item tc [z, y, x] = [real z - of_int a, real y - of_int b, real x - of_int c]"
    by blast
  from target_resample_translate [OF t it, of cast target_discrete_ix] obtain t0 where
    t0: "target_resample cast target_src (D, H, W) tc [- a, - b, - c]
                 [int D - a, int H - b, int W - c] [0, 0, 0] target_discrete_ix = Inr t0"
    and sh: "shape t0 = [ct, D, H, W]"
    and ct: "\<forall>k z y x. k < ct \<and> z < D \<and> y < H \<and> x < W \<longrightarrow>
            item t0 [k, z, y, x]
              = cast (item target_src [k, nat (- a) + z, nat (- b) + y, nat (- c) + x])"
    by blast
  have "warp_target cast M [sd, sh, sw] (D, H, W) sc target_src (Some (D, H, W)) vec
          target_discrete_ix = target_reproject M t0 vec" for vec
    using assms(4-9)
    by (simp add: warp_target_def t tc and_then_def exceeds_explicit t0)
  with sh ct show ?thesis by blast
qed

section \<open>The identity transform\<close>

lemma identity_as_translate: "identity = translate (of_int 0) (of_int 0) (of_int 0)"
  by (simp add: identity_def eye4_def translate_def)

lemma target_reproject_None: "target_reproject M t0 None = Inr t0"
  by (simp add: target_reproject_def)

lemma warp_slice_identity_content:
  assumes inp: "shape inp_src = [n, sd, sh, sw]"
    and ps: "0 < D" "D < sd" "0 < H" "H < sh" "0 < W" "W < sw"
    and nomax: "\<not> (1/2 < ksize \<and> last_ch_max_interp)"
    and tgt: "case target_src of
                None \<Rightarrow> True
              | Some t \<Rightarrow> length (shape t) = 4 \<and> tl (shape t) = [sd, sh, sw]
                          \<and> target_ps = Some (D, H, W)"
  shows "\<exists>out tout.
           warp_slice cast inp_src (D, H, W) identity target_src target_ps None
             target_discrete_ix last_ch_max_interp ksize = Inr (out, tout)
         \<and> shape out = [n, D, H, W]
         \<and> (\<forall>k z y x. k < n \<and> z < D \<and> y < H \<and> x < W \<longrightarrow>
               item out [k, z, y, x] = cast (item inp_src [k, z, y, x]))
         \<and> (case target_src of
               None \<Rightarrow> tout = None
             | Some t \<Rightarrow>
                 (\<exists>ta. tout = Some ta \<and> shape ta = [hd (shape t), D, H, W]
                    \<and> (\<forall>k z y x. k < hd (shape t) \<and> z < D \<and> y < H \<and> x < W \<longrightarrow>
                          item ta [k, z, y, x] = cast (item t [k, z, y, x]))))"
proof -
  have b: "(0::int) \<le> 0" "int D - 0 < int sd" "int H - 0 < int sh" "int W - 0 < int sw"
    using ps by simp_all
  from warp_input_translate_ok [OF inp ps(1,3,5) b(1) b(1) b(1) b(2-4) nomax, of cast]
  obtain out sc where
    wi: "warp_input cast inp_src (D, H, W) identity last_ch_max_interp ksize
           = Inr (out, sc, [sd, sh, sw])"
    and sho: "shape out = [n, D, H, W]"
    and ito: "\<forall>k z y x. k < n \<and> z < D \<and> y < H \<and> x < W \<longrightarrow>
               item out [k, z, y, x] = cast (item inp_src [k, z, y, x])"
    and itc: "\<forall>z y x. z < D \<and> y < H \<and> x < W \<longrightarrow>
            item sc [z, y, x] = [real z - of_int 0, real y - of_int 0, real x - of_int 0]"
    unfolding identity_as_translate [symmetric] by auto
  show ?thesis
  proof (cases target_src)
    case None
    then have "warp_slice cast inp_src (D, H, W) identity target_src target_ps None
             target_discrete_ix last_ch_max_interp ksize = Inr (out, None)"
      by (simp add: warp_slice_def wi and_then_def)
    with sho ito None show ?thesis by simp
  next
    case (Some t)
    with tgt obtain ct where t: "shape t = [ct, sd, sh, sw]" and tps: "target_ps = Some (D, H, W)"
      by (cases "shape t") auto
    from warp_target_translate [OF ps(1,3,5) b(1) b(1) b(1) b(2-4) t itc,
                                of cast identity target_discrete_ix]
    obtain t0 where
      wt: "\<forall>vec. warp_target cast identity [sd, sh, sw] (D, H, W) sc t (Some (D, H, W)) vec
                       target_discrete_ix = target_reproject identity t0 vec"
      and sht: "shape t0 = [ct, D, H, W]"
      and itt: "\<forall>k z y x. k < ct \<and> z < D \<and> y < H \<and> x < W \<longrightarrow>
               item t0 [k, z, y, x] = cast (item t [k, z, y, x])"
      by auto
    have "warp_slice cast inp_src (D, H, W) identity target_src target_ps None
             target_discrete_ix last_ch_max_interp ksize = Inr (out, Some t0)"
      by (simp add: warp_slice_def wi and_then_def Some tps wt target_reproject_None)
    with sho ito sht itt Some t show ?thesis by simp
  qed
qed


lemma warp_slice_identity_full_shape:
  assumes "shape inp_src = [n, D, H, W]" "0 < D" "0 < H" "0 < W"
  shows "warp_slice cast inp_src (D, H, W) identity target_src target_ps target_vec_ix
           target_discrete_ix last_ch_max_interp ksize = Inl (WarpingOOBError ''Out of bounds'')"
proof -
  have "warp_input cast inp_src (D, H, W) identity last_ch_max_interp ksize
          = Inl (WarpingOOBError ''Out of bounds'')"
    unfolding identity_as_translate
    by (rule warp_input_translate_oob [OF assms]) simp
  then show ?thesis by (simp add: warp_slice_def and_then_def)
qed



section \<open>Vector channels\<close>

lemma allclose_zero_identity: "allclose_zero identity"
  by (simp add: allclose_zero_def identity_def eye4_def)

lemma reproject_tuple_mismatch:
  assumes "shape target = [ct, D, H, W]" "0 < ct" "1 < D" "2 < H" "W \<noteq> 3"
  shows "reproject M target (PyTuple [0, 1, 2]) = Inl (ValueError ''shape-mismatch for sum'')"
  using assms by (simp add: wrap_index_def)

text \<open>
  C6. The docstring gives \<^verbatim>\<open>target_vec_ix\<close> as a list of triples,
  \<^verbatim>\<open>[(0,1,2), (4,5,6)]\<close>. With a tuple \<^verbatim>\<open>ix\<close>, numpy reads
  \<^verbatim>\<open>target[ix]\<close> as \<^verbatim>\<open>target[0, 1, 2]\<close>, one row of channel 0, not as
  the three channels. With the identity as \<^verbatim>\<open>M\<close>, a target of the spatial shape
  of the input and a patch of a width other than 3, the call does not return the
  re-projected vectors: \<^verbatim>\<open>np.tensordot\<close> of the 3x3 block with the row raises
  \<^verbatim>\<open>ValueError\<close>.
\<close>

theorem warp_slice_tuple_triple:
  assumes inp: "shape inp_src = [n, sd, sh, sw]"
    and ps: "0 < D" "D < sd" "0 < H" "H < sh" "0 < W" "W < sw"
    and nomax: "\<not> (1/2 < ksize \<and> last_ch_max_interp)"
    and t: "shape target_src = [ct, sd, sh, sw]"
    and ix: "0 < ct" "1 < D" "2 < H" "W \<noteq> 3"
  shows "warp_slice cast inp_src (D, H, W) identity (Some target_src) (Some (D, H, W))
           (Some [PyTuple [0, 1, 2]]) target_discrete_ix last_ch_max_interp ksize
         = Inl (ValueError ''shape-mismatch for sum'')"
proof -
  have b: "(0::int) \<le> 0" "int D - 0 < int sd" "int H - 0 < int sh" "int W - 0 < int sw"
    using ps by simp_all
  from warp_input_translate_ok [OF inp ps(1,3,5) b(1) b(1) b(1) b(2-4) nomax, of cast]
  obtain out sc where
    wi: "warp_input cast inp_src (D, H, W) identity last_ch_max_interp ksize
           = Inr (out, sc, [sd, sh, sw])"
    and itc: "\<forall>z y x. z < D \<and> y < H \<and> x < W \<longrightarrow>
            item sc [z, y, x] = [real z - of_int 0, real y - of_int 0, real x - of_int 0]"
    unfolding identity_as_translate [symmetric] by auto
  from warp_target_translate [OF ps(1,3,5) b(1) b(1) b(1) b(2-4) t itc,
                              of cast identity target_discrete_ix]
  obtain t0 where
    wt: "\<forall>vec. warp_target cast identity [sd, sh, sw] (D, H, W) sc target_src (Some (D, H, W)) vec
                     target_discrete_ix = target_reproject identity t0 vec"
    and sht: "shape t0 = [ct, D, H, W]"
    by auto
  have "target_reproject identity t0 (Some [PyTuple [0, 1, 2]])
          = Inl (ValueError ''shape-mismatch for sum'')"
    by (simp add: target_reproject_def allclose_zero_identity and_then_def
                  reproject_tuple_mismatch [OF sht ix] del: reproject.simps)
  then show ?thesis
    by (simp add: warp_slice_def wi and_then_def wt)
qed

theorem warp_slice_tuple_triple_witness:
  "warp_slice no_cast (digits_volume [2, 4, 4, 4]) (3, 3, 2) identity
     (Some (digits_volume [3, 4, 4, 4])) (Some (3, 3, 2)) (Some [PyTuple [0, 1, 2]]) None False (1/2)
   = Inl (ValueError ''shape-mismatch for sum'')"
  by (rule warp_slice_tuple_triple [where n = 2 and ct = 3 and sd = 4 and sh = 4 and sw = 4])
     (simp_all add: shape_digits_volume)

text \<open>
  With a list \<^verbatim>\<open>ix\<close> of three different channels in range the three channels
  are multiplied by the block \<^verbatim>\<open>M[:3,:3]\<close> and no other channel changes; with a
  tuple and a patch of width 3 one row of one channel changes; and with a transform
  that is not affine the call fails whenever vectors are to be re-projected.
\<close>

lemma reproject_list_channels:
  assumes "shape target = ct # rest" "a < ct" "b < ct" "c < ct" "a \<noteq> b" "a \<noteq> c" "b \<noteq> c"
  shows "\<exists>t'. reproject M target (PyList [int a, int b, int c]) = Inr t'
      \<and> shape t' = shape target
      \<and> (\<forall>v. item t' (a # v) = M ! 0 ! 0 * item target (a # v) + M ! 0 ! 1 * item target (b # v)
                                  + M ! 0 ! 2 * item target (c # v)
            \<and> item t' (b # v) = M ! 1 ! 0 * item target (a # v) + M ! 1 ! 1 * item target (b # v)
                                  + M ! 1 ! 2 * item target (c # v)
            \<and> item t' (c # v) = M ! 2 ! 0 * item target (a # v) + M ! 2 ! 1 * item target (b # v)
                                  + M ! 2 ! 2 * item target (c # v))
      \<and> (\<forall>k v. k \<noteq> a \<and> k \<noteq> b \<and> k \<noteq> c \<longrightarrow> item t' (k # v) = item target (k # v))"
  using assms by (simp add: wrap_index_nat with_channel_def)

lemma isl_and_then: "(\<And>x. r = Inr x \<Longrightarrow> isl (f x)) \<Longrightarrow> isl (and_then r f)"
  by (cases r) (simp_all add: and_then_def)

lemma warp_target_projective_fails:
  assumes "\<not> allclose_zero M"
  shows "isl (warp_target cast M sh ps sc t target_ps (Some ixs) target_discrete_ix)"
  unfolding warp_target_def
  by (cases target_ps)
     (auto simp: target_reproject_def assms split: prod.splits intro!: isl_and_then)

lemma isl_and_then_left: "isl r \<Longrightarrow> isl (and_then r f)"
  by (cases r) (simp_all add: and_then_def)

lemma warp_slice_projective_vectors_fail:
  assumes "\<not> allclose_zero M"
  shows "isl (warp_slice cast inp_src ps M (Some t) target_ps (Some ixs) target_discrete_ix
                last_ch_max_interp ksize)"
  unfolding warp_slice_def
  apply (rule isl_and_then)
  apply (simp add: split_beta)
  apply (rule isl_and_then_left)
  apply (rule warp_target_projective_fails [OF assms])
  done


lemma reproject_tuple_row:
  assumes "shape target = [ct, D, H, 3]" "0 < ct" "1 < D" "2 < H"
  shows "\<exists>t'. reproject M target (PyTuple [0, 1, 2]) = Inr t'
      \<and> (\<forall>j. item t' [0, 1, 2, j]
                = M ! j ! 0 * item target [0, 1, 2, 0] + M ! j ! 1 * item target [0, 1, 2, 1]
                  + M ! j ! 2 * item target [0, 1, 2, 2])
      \<and> (\<forall>idx. take 3 idx \<noteq> [0, 1, 2] \<longrightarrow> item t' idx = item target idx)"
  using assms by (simp add: wrap_index_def)

section \<open>The parts of a call that returns\<close>

lemma warp_input_InrD:
  assumes "warp_input cast inp_src ps M last_ch_max_interp ksize = Inr (out, sc, sh)"
  shows "\<exists>M_inv lo hi. length (shape inp_src) = 4 \<and> sh = tl (shape inp_src)
           \<and> linalg_inv M = Inr M_inv \<and> bounding_box M M_inv ps = Inr (lo, hi)
           \<and> \<not> exceeds lo hi sh \<and> source_coords M M_inv ps = Inr sc
           \<and> input_resample cast inp_src (hd (shape inp_src)) ps sc lo hi last_ch_max_interp ksize
               = Inr out"
  using assms
  apply (simp only: warp_input_def)
  apply (erule and_then_InrE)
  apply (simp only: split_beta)
  apply (erule and_then_InrE)
  apply (erule and_then_InrE)
  apply (simp only: split_beta)
  apply (split if_split_asm)
   apply (simp only: sum.distinct)
  apply (erule and_then_InrE)
  apply (erule and_then_InrE)
  apply (auto simp: inp_dims_def split: if_splits)
  done

lemma warp_target_InrD:
  assumes "warp_target cast M sh ps sc t target_ps vec dix = Inr target"
  shows "\<exists>tps tc tlo thi off t0. target_ps = Some tps \<and> length (shape t) = 4
           \<and> target_coords sh ps sc (tl (shape t)) tps = Inr (tc, tlo, thi, off)
           \<and> \<not> exceeds tlo thi (tl (shape t))
           \<and> target_resample cast t tps tc tlo thi off dix = Inr t0
           \<and> target_reproject M t0 vec = Inr target"
proof (cases target_ps)
  case None
  with assms show ?thesis by (simp add: warp_target_def)
next
  case (Some tps)
  with assms have l: "length (shape t) = 4"
    and a: "and_then (target_coords sh ps sc (tl (shape t)) tps)
              (\<lambda>(src_coords_target, lo_targ, hi_targ, off).
                 if exceeds lo_targ hi_targ (tl (shape t))
                 then Inl (WarpingOOBError ''Out of bounds for target_src'')
                 else
                   and_then (target_resample cast t tps src_coords_target lo_targ hi_targ
                               off dix)
                     (\<lambda>target. target_reproject M target vec)) = Inr target"
    by (auto simp: warp_target_def split: if_splits)
  from a obtain x where x: "target_coords sh ps sc (tl (shape t)) tps = Inr x"
    and b: "(case x of (src_coords_target, lo_targ, hi_targ, off) \<Rightarrow>
                 if exceeds lo_targ hi_targ (tl (shape t))
                 then Inl (WarpingOOBError ''Out of bounds for target_src'')
                 else
                   and_then (target_resample cast t tps src_coords_target lo_targ hi_targ
                               off dix)
                     (\<lambda>target. target_reproject M target vec)) = Inr target"
    by (rule and_then_InrE)
  obtain tc tlo thi off where xe: "x = (tc, tlo, thi, off)" by (cases x) auto
  from b have ne: "\<not> exceeds tlo thi (tl (shape t))"
    and c: "and_then (target_resample cast t tps tc tlo thi off dix)
                     (\<lambda>target. target_reproject M target vec) = Inr target"
    unfolding xe by (auto split: if_splits)
  from c obtain t0 where "target_resample cast t tps tc tlo thi off dix = Inr t0"
    "target_reproject M t0 vec = Inr target"
    by (rule and_then_InrE)
  with Some l x xe ne show ?thesis by blast
qed

lemma warp_slice_InrD:
  assumes "warp_slice cast inp_src ps M target_src target_ps vec dix last_ch_max_interp ksize
             = Inr (inp, tgt)"
  shows "\<exists>sc sh. warp_input cast inp_src ps M last_ch_max_interp ksize = Inr (inp, sc, sh)
           \<and> (case target_src of
                 None \<Rightarrow> tgt = None
               | Some t \<Rightarrow> (\<exists>target. tgt = Some target
                   \<and> warp_target cast M sh ps sc t target_ps vec dix = Inr target))"
proof -
  from assms obtain x where x: "warp_input cast inp_src ps M last_ch_max_interp ksize = Inr x"
    and b: "(case x of (inp, src_coords, sh) \<Rightarrow>
       case target_src of
         None \<Rightarrow> Inr (inp, None)
       | Some t \<Rightarrow>
           and_then (warp_target cast M sh ps src_coords t target_ps vec dix)
                    (\<lambda>target. Inr (inp, Some target))) = Inr (inp, tgt)"
    unfolding warp_slice_def by (rule and_then_InrE)
  obtain i sc sh where xe: "x = (i, sc, sh)" by (cases x) auto
  show ?thesis
  proof (cases target_src)
    case None
    with b xe x show ?thesis by auto
  next
    case (Some t)
    with b xe have "and_then (warp_target cast M sh ps sc t target_ps vec dix)
                    (\<lambda>target. Inr (i, Some target)) = Inr (inp, tgt)"
      by simp
    then obtain target where "warp_target cast M sh ps sc t target_ps vec dix = Inr target"
      "Inr (i, Some target) = (Inr (inp, tgt) :: (real ndarray \<times> real ndarray option) result)"
      by (rule and_then_InrE)
    with Some xe x show ?thesis by auto
  qed
qed

section \<open>Which kernel resamples which channel\<close>

lemma discrete_flags_nth:
  "k < n \<Longrightarrow> discrete_flags dix n ! k = (case dix of None \<Rightarrow> True | Some ds \<Rightarrow> int k \<in> set ds)"
  by (simp add: discrete_flags_def split: option.splits)

lemma channel_voxels_mem: "k < n \<Longrightarrow> v \<in> set (voxels ps) \<Longrightarrow> k # v \<in> set (channel_voxels n ps)"
  by (auto simp: channel_voxels_def)

lemma input_resample_kernels:
  assumes "input_resample cast inp_src n_f ps sc lo hi last_ch_max_interp ksize = Inr out"
    and "k < n_f" "v \<in> set (voxels ps)"
  shows "(if 1/2 < ksize \<and> last_ch_max_interp \<and> int k = int n_f - 1
          then map_coordinates_max_kernel (channel (cut cast inp_src lo hi) k) (item sc v)
                 (map of_int lo) ksize
          else map_coordinates_linear (channel (cut cast inp_src lo hi) k) (item sc v)
                 (map of_int lo))
         = Inr (item out (k # v))"
  using tabulate_Inr(2) [OF assms(1) [unfolded input_resample_def Let_def],
                         OF channel_voxels_mem [OF assms(2,3)]]
  unfolding list.sel use_max_kernel_def .

lemma target_resample_kernels:
  assumes "target_resample cast t tps tc tlo thi off dix = Inr t0"
    and "k < hd (shape t)" "v \<in> set (voxels tps)"
  shows "(if (case dix of None \<Rightarrow> True | Some ds \<Rightarrow> int k \<in> set ds)
          then map_coordinates_nearest (channel (cut cast t tlo thi) k) (item tc v)
                 (map2 (\<lambda>l a. of_int (l + a)) tlo off)
          else map_coordinates_linear (channel (cut cast t tlo thi) k) (item tc v)
                 (map2 (\<lambda>l a. of_int (l + a)) tlo off))
         = Inr (item t0 (k # v))"
  using tabulate_Inr(2) [OF assms(1) [unfolded target_resample_def Let_def],
                         OF channel_voxels_mem [OF assms(2,3)]]
  unfolding list.sel discrete_flags_nth [OF assms(2)] .

text \<open>
  C8. In a call of \<^verbatim>\<open>warp_slice\<close> that returns, every channel \<open>k\<close> of the
  target (before vectors are re-projected) holds at every voxel what the nearest kernel
  returns if no set of discrete channels is given or \<open>k\<close> is in the set, and what the
  linear kernel returns otherwise, on the cut of the target and the coordinates of the
  target patch. Every channel of the input holds what the linear kernel returns, but for
  the last channel when \<^verbatim>\<open>last_ch_max_interp\<close> is set and
  \<^verbatim>\<open>ksize > 0.5\<close>, which holds what the max kernel returns.
\<close>

theorem warp_slice_kernel_selection:
  assumes "warp_slice cast inp_src ps M target_src target_ps target_vec_ix target_discrete_ix
             last_ch_max_interp ksize = Inr (inp, tgt)"
  shows "\<exists>M_inv lo hi sc.
           linalg_inv M = Inr M_inv \<and> bounding_box M M_inv ps = Inr (lo, hi)
         \<and> source_coords M M_inv ps = Inr sc
         \<and> (\<forall>k v. k < hd (shape inp_src) \<and> v \<in> set (voxels ps) \<longrightarrow>
               (if 1/2 < ksize \<and> last_ch_max_interp \<and> int k = int (hd (shape inp_src)) - 1
                then map_coordinates_max_kernel (channel (cut cast inp_src lo hi) k) (item sc v)
                       (map of_int lo) ksize
                else map_coordinates_linear (channel (cut cast inp_src lo hi) k) (item sc v)
                       (map of_int lo))
               = Inr (item inp (k # v)))
         \<and> (\<forall>t. target_src = Some t \<longrightarrow>
               (\<exists>tps tc tlo thi off t0 target.
                   target_ps = Some tps
                 \<and> target_coords (tl (shape inp_src)) ps sc (tl (shape t)) tps
                     = Inr (tc, tlo, thi, off)
                 \<and> target_reproject M t0 target_vec_ix = Inr target \<and> tgt = Some target
                 \<and> (\<forall>k v. k < hd (shape t) \<and> v \<in> set (voxels tps) \<longrightarrow>
                       (if (case target_discrete_ix of
                              None \<Rightarrow> True
                            | Some ds \<Rightarrow> int k \<in> set ds)
                        then map_coordinates_nearest (channel (cut cast t tlo thi) k) (item tc v)
                               (map2 (\<lambda>l a. of_int (l + a)) tlo off)
                        else map_coordinates_linear (channel (cut cast t tlo thi) k) (item tc v)
                               (map2 (\<lambda>l a. of_int (l + a)) tlo off))
                       = Inr (item t0 (k # v)))))"
proof -
  from warp_slice_InrD [OF assms] obtain sc sh where
    wi: "warp_input cast inp_src ps M last_ch_max_interp ksize = Inr (inp, sc, sh)"
    and tg: "case target_src of
                 None \<Rightarrow> tgt = None
               | Some t \<Rightarrow> (\<exists>target. tgt = Some target
                   \<and> warp_target cast M sh ps sc t target_ps target_vec_ix target_discrete_ix
                       = Inr target)"
    by blast
  from warp_input_InrD [OF wi] obtain M_inv lo hi where
    sh: "sh = tl (shape inp_src)"
    and inv: "linalg_inv M = Inr M_inv" and bb: "bounding_box M M_inv ps = Inr (lo, hi)"
    and scs: "source_coords M M_inv ps = Inr sc"
    and ir: "input_resample cast inp_src (hd (shape inp_src)) ps sc lo hi last_ch_max_interp ksize
               = Inr inp"
    by blast
  have p1: "\<forall>k v. k < hd (shape inp_src) \<and> v \<in> set (voxels ps) \<longrightarrow>
               (if 1/2 < ksize \<and> last_ch_max_interp \<and> int k = int (hd (shape inp_src)) - 1
                then map_coordinates_max_kernel (channel (cut cast inp_src lo hi) k) (item sc v)
                       (map of_int lo) ksize
                else map_coordinates_linear (channel (cut cast inp_src lo hi) k) (item sc v)
                       (map of_int lo))
               = Inr (item inp (k # v))"
    using input_resample_kernels [OF ir] by blast
  have p2: "\<exists>tps tc tlo thi off t0 target.
                   target_ps = Some tps
                 \<and> target_coords (tl (shape inp_src)) ps sc (tl (shape t)) tps
                     = Inr (tc, tlo, thi, off)
                 \<and> target_reproject M t0 target_vec_ix = Inr target \<and> tgt = Some target
                 \<and> (\<forall>k v. k < hd (shape t) \<and> v \<in> set (voxels tps) \<longrightarrow>
                       (if (case target_discrete_ix of
                              None \<Rightarrow> True
                            | Some ds \<Rightarrow> int k \<in> set ds)
                        then map_coordinates_nearest (channel (cut cast t tlo thi) k) (item tc v)
                               (map2 (\<lambda>l a. of_int (l + a)) tlo off)
                        else map_coordinates_linear (channel (cut cast t tlo thi) k) (item tc v)
                               (map2 (\<lambda>l a. of_int (l + a)) tlo off))
                       = Inr (item t0 (k # v)))"
    if t: "target_src = Some t" for t
  proof -
    from tg t obtain target where tgt: "tgt = Some target"
      and wt: "warp_target cast M sh ps sc t target_ps target_vec_ix target_discrete_ix
                 = Inr target"
      by auto
    from warp_target_InrD [OF wt] obtain tps tc tlo thi off t0 where
      tps: "target_ps = Some tps"
      and tco: "target_coords sh ps sc (tl (shape t)) tps = Inr (tc, tlo, thi, off)"
      and tr: "target_resample cast t tps tc tlo thi off target_discrete_ix = Inr t0"
      and rp: "target_reproject M t0 target_vec_ix = Inr target"
      by blast
    from target_resample_kernels [OF tr] tps tco rp tgt show ?thesis
      unfolding sh by blast
  qed
  from inv bb scs p1 p2 show ?thesis by blast
qed

text \<open>A call that returns: the identity on a volume of shape \<open>(2, 4, 4, 4)\<close> with a
  target of the same shape, of which channel 0 is discrete.\<close>

theorem warp_slice_kernel_selection_witness:
  "case warp_slice no_cast (digits_volume [2, 4, 4, 4]) (3, 3, 3) identity
          (Some (digits_volume [2, 4, 4, 4])) (Some (3, 3, 3)) None (Some [0]) False (1/2) of
     Inl e \<Rightarrow> False
   | Inr (inp, tgt) \<Rightarrow>
       (\<exists>M_inv lo hi sc.
           linalg_inv identity = Inr M_inv \<and> bounding_box identity M_inv (3, 3, 3) = Inr (lo, hi)
         \<and> source_coords identity M_inv (3, 3, 3) = Inr sc
         \<and> map_coordinates_linear (channel (cut no_cast (digits_volume [2, 4, 4, 4]) lo hi) 0)
              (item sc [0, 2, 0]) (map of_int lo) = Inr (item inp [0, 0, 2, 0]))"
proof -
  have h: "shape (digits_volume [2, 4, 4, 4]) = [2, 4, 4, 4]" "(0::nat) < 3" "(3::nat) < 4"
    "\<not> (1/2 < (1/2 :: real) \<and> False)"
    "case Some (digits_volume [2, 4, 4, 4]) of
                None \<Rightarrow> True
              | Some t \<Rightarrow> length (shape t) = 4 \<and> tl (shape t) = [4, 4, 4]
                          \<and> Some (3, 3, 3) = Some (3 :: nat, 3 :: nat, 3 :: nat)"
    by (simp_all add: shape_digits_volume)
  from warp_slice_identity_content [OF h(1) h(2) h(3) h(2) h(3) h(2) h(3) h(4) h(5),
                                    of no_cast "Some [0]"]
  obtain inp tgt where
    w: "warp_slice no_cast (digits_volume [2, 4, 4, 4]) (3, 3, 3) identity
          (Some (digits_volume [2, 4, 4, 4])) (Some (3, 3, 3)) None (Some [0]) False (1/2)
        = Inr (inp, tgt)"
    by (elim exE conjE)
  from warp_slice_kernel_selection [OF w]
  obtain M_inv lo hi sc where
    a: "linalg_inv identity = Inr M_inv" "bounding_box identity M_inv (3, 3, 3) = Inr (lo, hi)"
       "source_coords identity M_inv (3, 3, 3) = Inr sc"
    and k: "\<forall>k v. k < hd (shape (digits_volume [2, 4, 4, 4])) \<and> v \<in> set (voxels (3, 3, 3)) \<longrightarrow>
               (if 1/2 < (1/2 :: real) \<and> False
                   \<and> int k = int (hd (shape (digits_volume [2, 4, 4, 4]))) - 1
                then map_coordinates_max_kernel
                       (channel (cut no_cast (digits_volume [2, 4, 4, 4]) lo hi) k) (item sc v)
                       (map of_int lo) (1/2)
                else map_coordinates_linear
                       (channel (cut no_cast (digits_volume [2, 4, 4, 4]) lo hi) k) (item sc v)
                       (map of_int lo))
               = Inr (item inp (k # v))"
    by (elim exE conjE)
  have "(0::nat) < hd (shape (digits_volume [2, 4, 4, 4])) \<and> [0, 2, 0] \<in> set (voxels (3, 3, 3))"
    by (simp add: shape_digits_volume voxels_iff)
  with k have "map_coordinates_linear
                 (channel (cut no_cast (digits_volume [2, 4, 4, 4]) lo hi) 0) (item sc [0, 2, 0])
                 (map of_int lo) = Inr (item inp [0, 0, 2, 0])"
    by fastforce
  with a w show ?thesis by auto
qed

section \<open>The errors of the parts\<close>



lemma collect_Inr_nth: "collect rs = Inr xs \<Longrightarrow> i < length rs \<Longrightarrow> rs ! i = Inr (xs ! i)"
proof (induction rs arbitrary: xs i rule: collect.induct)
  case 1
  then show ?case by simp
next
  case (2 e rs)
  then show ?case by simp
next
  case (3 x rs)
  then show ?case by (cases i) (auto split: sum.splits)
qed














section \<open>The out-of-bounds error\<close>





lemma ex_less_3: "(\<exists>i<3. Q i) \<longleftrightarrow> Q 0 \<or> Q 1 \<or> Q (2::nat)"
  using all_less_3 [of "\<lambda>i. \<not> Q i"] by blast








lemma to_source_identity: "to_source identity identity [z, y, x, 1] = Inr [z, y, x]"
  by (simp add: to_source_def needs_divide_def identity_def eye4_def matvec_def)







section \<open>The centering of the target\<close>

lemma target_coords_odd:
  assumes "length sh = 3" "length tsh = 3"
    and "(\<exists>i<3. (int (sh ! i) - int (tsh ! i)) mod 2 \<noteq> 0)
         \<or> (\<exists>i<3. (int (dims ps ! i) - int (dims tps ! i)) mod 2 \<noteq> 0)"
  shows "target_coords sh ps sc tsh tps
           = Inl (ValueError ''targets must be centered w.r.t. images'')"
proof -
  from assms(1,2) obtain s0 s1 s2 t0 t1 t2 where e: "sh = [s0, s1, s2]" "tsh = [t0, t1, t2]"
    by (auto simp: length_Suc_conv numeral_3_eq_3)
  obtain D H W where p: "ps = (D, H, W)" by (cases ps) auto
  obtain D' H' W' where t: "tps = (D', H', W')" by (cases tps) auto
  from assms(3) show ?thesis
    unfolding e p t target_coords_def Let_def dims_def prod.case ex_less_3
    by auto
qed

text \<open>
  C7, as the code has it. With a target of four axes and its patch shape supplied, if
  the spatial shapes of input and target, or the two patch shapes, differ by an odd
  number along some axis, then the call never returns a result; and once the input part
  has gone through (the bounding box of the input is checked before), it raises
  \<^verbatim>\<open>ValueError("targets must be centered w.r.t. images")\<close>.
\<close>

theorem warp_slice_centering:
  assumes len: "length (shape t) = 4"
    and odd: "(\<exists>i<3. (int (tl (shape inp_src) ! i) - int (tl (shape t) ! i)) mod 2 \<noteq> 0)
              \<or> (\<exists>i<3. (int (dims ps ! i) - int (dims tps ! i)) mod 2 \<noteq> 0)"
  shows "(\<forall>r. warp_input cast inp_src ps M last_ch_max_interp ksize = Inr r \<longrightarrow>
            warp_slice cast inp_src ps M (Some t) (Some tps) target_vec_ix target_discrete_ix
              last_ch_max_interp ksize
            = Inl (ValueError ''targets must be centered w.r.t. images''))
       \<and> isl (warp_slice cast inp_src ps M (Some t) (Some tps) target_vec_ix target_discrete_ix
                last_ch_max_interp ksize)"
proof -
  have a: "warp_slice cast inp_src ps M (Some t) (Some tps) target_vec_ix target_discrete_ix
              last_ch_max_interp ksize
            = Inl (ValueError ''targets must be centered w.r.t. images'')"
    if r: "warp_input cast inp_src ps M last_ch_max_interp ksize = Inr r" for r
  proof -
    obtain out sc sh where re: "r = (out, sc, sh)" by (cases r) auto
    from warp_input_InrD [OF r [unfolded re]] have l: "length (shape inp_src) = 4"
      and sh: "sh = tl (shape inp_src)"
      by auto
    have "target_coords sh ps sc (tl (shape t)) tps
            = Inl (ValueError ''targets must be centered w.r.t. images'')"
      by (rule target_coords_odd) (use l len sh odd in auto)
    then show ?thesis
      using len by (simp add: warp_slice_def r re and_then_def warp_target_def)
  qed
  moreover have "isl (warp_slice cast inp_src ps M (Some t) (Some tps) target_vec_ix
                        target_discrete_ix last_ch_max_interp ksize)"
  proof (cases "warp_input cast inp_src ps M last_ch_max_interp ksize")
    case (Inl e)
    then show ?thesis by (simp add: warp_slice_def and_then_def)
  next
    case (Inr r)
    from a [OF this] show ?thesis by simp
  qed
  ultimately show ?thesis by blast
qed

theorem warp_slice_centering_witness:
  "length (shape (digits_volume [2, 3, 3, 3])) = 4
   \<and> warp_slice no_cast (digits_volume [2, 4, 4, 4]) (3, 3, 3) identity
       (Some (digits_volume [2, 3, 3, 3])) (Some (2, 2, 2)) None None False (1/2)
     = Inl (ValueError ''targets must be centered w.r.t. images'')"
proof -
  have len: "length (shape (digits_volume [2, 3, 3, 3])) = 4"
    by (simp add: shape_digits_volume)
  have odd: "(\<exists>i<3. (int (tl (shape (digits_volume [2, 4, 4, 4])) ! i)
                      - int (tl (shape (digits_volume [2, 3, 3, 3])) ! i)) mod 2 \<noteq> 0)
              \<or> (\<exists>i<3. (int (dims (3, 3, 3) ! i) - int (dims (2, 2, 2) ! i)) mod 2 \<noteq> 0)"
    by (simp add: shape_digits_volume ex_less_3)
  have h: "shape (digits_volume [2, 4, 4, 4]) = [2, 4, 4, 4]" "(0::nat) < 3" "(0::int) \<le> 0"
    "int 3 - 0 < int 4" "\<not> (1/2 < (1/2 :: real) \<and> False)"
    by (simp_all add: shape_digits_volume)
  from warp_input_translate_ok [OF h(1) h(2) h(2) h(2) h(3) h(3) h(3) h(4) h(4) h(4) h(5), of no_cast]
  obtain r where
    "warp_input no_cast (digits_volume [2, 4, 4, 4]) (3, 3, 3) identity False (1/2) = Inr r"
    unfolding identity_as_translate [symmetric] by auto
  with warp_slice_centering [OF len odd, of no_cast identity False "1/2" None None] len
  show ?thesis by blast
qed

text \<open>
  C7, as the claim states it, fails: when the box of the input is out of bounds, the call
  raises \<^verbatim>\<open>WarpingOOBError\<close> before the centering is looked at, odd differences
  or not.
\<close>

theorem warp_slice_centering_counterexample:
  "warp_slice no_cast (digits_volume [2, 3, 3, 3]) (3, 3, 3) identity
     (Some (digits_volume [2, 2, 2, 2])) (Some (2, 2, 2)) None None False (1/2)
   = Inl (WarpingOOBError ''Out of bounds'')"
  by (rule warp_slice_identity_full_shape) (simp_all add: shape_digits_volume)

end
